theory Spec2Isabelle
  imports Complex_Main "HOL-Library.Char_ord"
begin

section \<open>Python values used by the training pipeline\<close>

text \<open>
  A Python \<^verbatim>\<open>dict\<close> keeps its keys in insertion order, and assigning to a key that is
  already present replaces the value in place. A dictionary is therefore an association
  list with pairwise distinct keys; \<open>dict_set\<close> is \<^verbatim>\<open>d[k] = v\<close>, \<open>dict_get\<close> is
  \<^verbatim>\<open>d.get(k)\<close> (\<open>None\<close> for a missing key), \<open>dict_items\<close> and \<open>dict_values\<close> are
  \<^verbatim>\<open>d.items()\<close> and \<^verbatim>\<open>d.values()\<close>.
\<close>

type_synonym ('k, 'v) pydict = "('k \<times> 'v) list"

fun dict_set :: "('k, 'v) pydict \<Rightarrow> 'k \<Rightarrow> 'v \<Rightarrow> ('k, 'v) pydict" where
  "dict_set [] k v = [(k, v)]"
| "dict_set ((k', v') # d) k v =
     (if k' = k then (k', v) # d else (k', v') # dict_set d k v)"

definition dict_get :: "('k, 'v) pydict \<Rightarrow> 'k \<Rightarrow> 'v option" where
  "dict_get d k = map_of d k"

definition dict_items :: "('k, 'v) pydict \<Rightarrow> ('k \<times> 'v) list" where
  "dict_items d = d"

definition dict_values :: "('k, 'v) pydict \<Rightarrow> 'v list" where
  "dict_values d = map snd d"

definition dict_len :: "('k, 'v) pydict \<Rightarrow> nat" where
  "dict_len d = length d"

text \<open>\<^verbatim>\<open>enumerate(xs)\<close>: the elements paired with their positions, counted from 0.\<close>

definition py_enumerate :: "'a list \<Rightarrow> (int \<times> 'a) list" where
  "py_enumerate xs = zip (map int [0..<length xs]) xs"

section \<open>The label maps\<close>

text \<open>
  \<^verbatim>\<open>submit_train_pipeline.py\<close>, lines 179 and 180:
  \<^verbatim>\<open>label_2_idx_map = {label: idx for idx, label in enumerate(unique_label_values)}\<close> and
  \<^verbatim>\<open>idx_2_label_map = {idx: label for label, idx in label_2_idx_map.items()}\<close>.
  A dictionary comprehension assigns the pairs in iteration order.
\<close>

definition label_2_idx_map :: "string list \<Rightarrow> (string, int) pydict" where
  "label_2_idx_map unique_label_values =
     foldl (\<lambda>d (idx, label). dict_set d label idx) [] (py_enumerate unique_label_values)"

definition submit_idx_2_label_map :: "(string, int) pydict \<Rightarrow> (int, string) pydict" where
  "submit_idx_2_label_map l2i =
     foldl (\<lambda>d (label, idx). dict_set d idx label) [] (dict_items l2i)"

text \<open>
  \<^verbatim>\<open>hf_model_test.py\<close>, line 123, inside the testing component:
  \<^verbatim>\<open>idx_2_label_map = {v:k for k,v in label_map.items()}\<close>.
\<close>

definition idx_2_label_map :: "(string, int) pydict \<Rightarrow> (int, string) pydict" where
  "idx_2_label_map label_map =
     foldl (\<lambda>d (k, v). dict_set d v k) [] (dict_items label_map)"

section \<open>The experiment-name sanitizer\<close>

text \<open>
  \<^verbatim>\<open>build_experiment_name\<close> (\<^verbatim>\<open>hf_model_test.py\<close>, lines 102 to 113). Strings are
  lists of characters. \<open>py_lower\<close> is \<^verbatim>\<open>str.lower\<close> on the ASCII letters; every other
  character is left as it is and is replaced by a hyphen in the next step, whatever its
  case. \<open>valid_char\<close> is the class \<^verbatim>\<open>[a-z0-9-]\<close>, \<open>lower_or_digit\<close> the class
  \<^verbatim>\<open>[a-z0-9]\<close>.
\<close>

definition lower_or_digit :: "char \<Rightarrow> bool" where
  "lower_or_digit c =
     ((CHR ''a'' \<le> c \<and> c \<le> CHR ''z'') \<or> (CHR ''0'' \<le> c \<and> c \<le> CHR ''9''))"

definition valid_char :: "char \<Rightarrow> bool" where
  "valid_char c = (lower_or_digit c \<or> c = CHR ''-'')"

definition lower_char :: "char \<Rightarrow> char" where
  "lower_char c =
     (if CHR ''A'' \<le> c \<and> c \<le> CHR ''Z'' then char_of (of_char c + (32::nat)) else c)"

definition py_lower :: "string \<Rightarrow> string" where
  "py_lower s = map lower_char s"

text \<open>\<^verbatim>\<open>re.sub(r'[^a-z0-9-]', '-', name)\<close>: every character outside the class becomes a hyphen.\<close>

definition sub_invalid :: "string \<Rightarrow> string" where
  "sub_invalid name = map (\<lambda>c. if valid_char c then c else CHR ''-'') name"

text \<open>\<^verbatim>\<open>re.match(r'^[a-z0-9]', name)\<close>: the name has a first character, in the class.\<close>

definition match_start :: "string \<Rightarrow> bool" where
  "match_start name = (case name of [] \<Rightarrow> False | c # _ \<Rightarrow> lower_or_digit c)"

text \<open>\<^verbatim>\<open>name.rstrip('-')\<close>: the trailing hyphens are removed.\<close>

definition rstrip_hyphen :: "string \<Rightarrow> string" where
  "rstrip_hyphen name = rev (dropWhile (\<lambda>c. c = CHR ''-'') (rev name))"

definition build_experiment_name :: "string \<Rightarrow> string" where
  "build_experiment_name experiment_name =
     (let name = py_lower experiment_name;
          name = sub_invalid name;
          name = (if \<not> match_start name then CHR ''a'' # name else name);
          name = take 128 name;
          name = rstrip_hyphen name
      in name)"

section \<open>Exceptions\<close>

text \<open>
  The exceptions the component can meet. Every constructor stands for a subclass of
  Python's \<^verbatim>\<open>Exception\<close>, so the handler \<^verbatim>\<open>except Exception as e\<close> catches each of
  them. \<open>RequestException\<close> is \<^verbatim>\<open>requests.exceptions.RequestException\<close> with its
  subclasses (connection errors, timeouts, \<^verbatim>\<open>HTTPError\<close>); \<open>LocationParseError\<close> is
  \<^verbatim>\<open>urllib3.exceptions.LocationParseError\<close>, which \<^verbatim>\<open>requests.post\<close> raises for a URL
  whose host it cannot parse and which is not a \<^verbatim>\<open>RequestException\<close>. The string is the
  message.
\<close>

datatype py_exception =
    ValueError string
  | TypeError string
  | AttributeError string
  | OSError string
  | RuntimeError string
  | RequestException string
  | LocationParseError string

text \<open>\<^verbatim>\<open>isinstance(e, requests.exceptions.RequestException)\<close>.\<close>

fun is_request_exception :: "py_exception \<Rightarrow> bool" where
  "is_request_exception (RequestException m) = True"
| "is_request_exception other = False"

section \<open>The metric functions of scikit-learn\<close>

text \<open>
  The component calls \<^verbatim>\<open>confusion_matrix\<close>, \<^verbatim>\<open>precision_score\<close>, \<^verbatim>\<open>recall_score\<close> and
  \<^verbatim>\<open>f1_score\<close> of scikit-learn 1.5.2 (the version the component pins). They are library
  functions; the definitions below follow the library's behaviour for the arguments the
  component passes. Scores are floating-point numbers in the library and exact rationals
  here.

  Without a \<^verbatim>\<open>labels\<close> argument the score functions work on \<open>unique_labels\<close>: the labels
  that occur in \<^verbatim>\<open>y_true\<close> or \<^verbatim>\<open>y_pred\<close>, sorted. A division by zero gives the score 0
  (\<^verbatim>\<open>zero_division="warn"\<close>).
\<close>

definition unique_labels :: "int list \<Rightarrow> int list \<Rightarrow> int list" where
  "unique_labels y_true y_pred = sort (remdups (y_true @ y_pred))"

definition tp_sum :: "'a \<Rightarrow> 'a list \<Rightarrow> 'a list \<Rightarrow> nat" where
  "tp_sum l y_true y_pred = length (filter (\<lambda>(t, p). t = l \<and> p = l) (zip y_true y_pred))"

definition pred_sum :: "'a \<Rightarrow> 'a list \<Rightarrow> nat" where
  "pred_sum l y_pred = count_list y_pred l"

definition true_sum :: "'a \<Rightarrow> 'a list \<Rightarrow> nat" where
  "true_sum l y_true = count_list y_true l"

definition prf_divide :: "nat \<Rightarrow> nat \<Rightarrow> rat" where
  "prf_divide numerator denominator =
     (if denominator = 0 then 0 else of_nat numerator / of_nat denominator)"

definition check_consistent_length :: "'a list \<Rightarrow> 'b list \<Rightarrow> py_exception option" where
  "check_consistent_length y_true y_pred =
     (if length y_true \<noteq> length y_pred
      then Some (ValueError ''Found input variables with inconsistent numbers of samples'')
      else None)"

definition weighted_average :: "rat list \<Rightarrow> nat list \<Rightarrow> rat" where
  "weighted_average scores weights =
     (if sum_list weights = 0 then 0
      else sum_list (map (\<lambda>(s, w). s * of_nat w) (zip scores weights)) / of_nat (sum_list weights))"

text \<open>\<^verbatim>\<open>precision_score(y_true, y_pred, average=None)\<close>, and likewise for recall and F1:
  one score per label of \<open>unique_labels\<close>.\<close>

definition precision_score_none :: "int list \<Rightarrow> int list \<Rightarrow> py_exception + rat list" where
  "precision_score_none y_true y_pred =
     (case check_consistent_length y_true y_pred of
        Some e \<Rightarrow> Inl e
      | None \<Rightarrow>
          Inr (map (\<lambda>l. prf_divide (tp_sum l y_true y_pred) (pred_sum l y_pred))
                 (unique_labels y_true y_pred)))"

definition recall_score_none :: "int list \<Rightarrow> int list \<Rightarrow> py_exception + rat list" where
  "recall_score_none y_true y_pred =
     (case check_consistent_length y_true y_pred of
        Some e \<Rightarrow> Inl e
      | None \<Rightarrow>
          Inr (map (\<lambda>l. prf_divide (tp_sum l y_true y_pred) (true_sum l y_true))
                 (unique_labels y_true y_pred)))"

definition f1_score_none :: "int list \<Rightarrow> int list \<Rightarrow> py_exception + rat list" where
  "f1_score_none y_true y_pred =
     (case check_consistent_length y_true y_pred of
        Some e \<Rightarrow> Inl e
      | None \<Rightarrow>
          Inr (map (\<lambda>l. prf_divide (2 * tp_sum l y_true y_pred)
                          (true_sum l y_true + pred_sum l y_pred))
                 (unique_labels y_true y_pred)))"

text \<open>\<^verbatim>\<open>precision_score(y_true, y_pred, average='weighted')\<close>, and likewise for recall and
  F1: the per-label scores averaged with the labels' supports in \<^verbatim>\<open>y_true\<close> as weights.\<close>

definition support :: "int list \<Rightarrow> int list \<Rightarrow> nat list" where
  "support y_true y_pred = map (\<lambda>l. true_sum l y_true) (unique_labels y_true y_pred)"

definition precision_score_weighted :: "int list \<Rightarrow> int list \<Rightarrow> py_exception + rat" where
  "precision_score_weighted y_true y_pred =
     (case precision_score_none y_true y_pred of
        Inl e \<Rightarrow> Inl e
      | Inr scores \<Rightarrow> Inr (weighted_average scores (support y_true y_pred)))"

definition recall_score_weighted :: "int list \<Rightarrow> int list \<Rightarrow> py_exception + rat" where
  "recall_score_weighted y_true y_pred =
     (case recall_score_none y_true y_pred of
        Inl e \<Rightarrow> Inl e
      | Inr scores \<Rightarrow> Inr (weighted_average scores (support y_true y_pred)))"

definition f1_score_weighted :: "int list \<Rightarrow> int list \<Rightarrow> py_exception + rat" where
  "f1_score_weighted y_true y_pred =
     (case f1_score_none y_true y_pred of
        Inl e \<Rightarrow> Inl e
      | Inr scores \<Rightarrow> Inr (weighted_average scores (support y_true y_pred)))"

text \<open>
  \<^verbatim>\<open>confusion_matrix(y_true, y_pred, labels=labels)\<close> on decoded labels, where a class
  index missing from the inverse label map was decoded to \<^verbatim>\<open>None\<close>. The library first
  checks the two targets: their lengths agree; a target whose first element is \<^verbatim>\<open>None\<close>
  has the type "unknown", which is refused; sorting a target that mixes \<^verbatim>\<open>None\<close> and
  strings raises \<^verbatim>\<open>TypeError\<close>. Then: an empty \<^verbatim>\<open>labels\<close> is refused, an empty
  \<^verbatim>\<open>y_true\<close> gives the zero matrix, and a non-empty \<^verbatim>\<open>y_true\<close> must contain one of the
  \<^verbatim>\<open>labels\<close>. Entry \<open>(i, j)\<close> counts the samples whose true label is \<open>labels ! i\<close> and whose
  predicted label is \<open>labels ! j\<close>.
\<close>

datatype target_type = Unknown | Classes

definition type_of_target :: "string option list \<Rightarrow> py_exception + target_type" where
  "type_of_target y =
     (case y of
        [] \<Rightarrow> Inr Classes
      | first # _ \<Rightarrow>
          if first = None then Inr Unknown
          else if None \<in> set y
          then Inl (TypeError ''not supported between instances of NoneType and str'')
          else Inr Classes)"

definition check_targets :: "string option list \<Rightarrow> string option list \<Rightarrow> py_exception option" where
  "check_targets y_true y_pred =
     (case check_consistent_length y_true y_pred of
        Some e \<Rightarrow> Some e
      | None \<Rightarrow>
          (case type_of_target y_true of
             Inl e \<Rightarrow> Some e
           | Inr type_true \<Rightarrow>
               (case type_of_target y_pred of
                  Inl e \<Rightarrow> Some e
                | Inr type_pred \<Rightarrow>
                    if type_true = Unknown \<or> type_pred = Unknown
                    then Some (ValueError ''unknown is not supported'')
                    else None)))"

definition cell :: "string option list \<Rightarrow> string option list \<Rightarrow> string \<Rightarrow> string \<Rightarrow> nat" where
  "cell y_true y_pred r c =
     length (filter (\<lambda>(t, p). t = Some r \<and> p = Some c) (zip y_true y_pred))"

definition confusion_matrix ::
  "string option list \<Rightarrow> string option list \<Rightarrow> string list \<Rightarrow> py_exception + nat list list" where
  "confusion_matrix y_true y_pred labels =
     (case check_targets y_true y_pred of
        Some e \<Rightarrow> Inl e
      | None \<Rightarrow>
          if labels = [] then Inl (ValueError ''labels should contains at least one label.'')
          else if y_true = []
          then Inr (replicate (length labels) (replicate (length labels) 0))
          else if \<not> list_ex (\<lambda>l. Some l \<in> set y_true) labels
          then Inl (ValueError ''At least one label specified must be in y_true'')
          else Inr (map (\<lambda>r. map (\<lambda>c. cell y_true y_pred r c) labels) labels))"

section \<open>The model-testing component\<close>

text \<open>
  \<^verbatim>\<open>test_huggingface_model_component\<close> (\<^verbatim>\<open>hf_model_test.py\<close>). The component's
  arguments that its own code reads; the others (project, location, dataset and model file
  names, batch size, sequence length) are only handed to library calls.
\<close>

record component_args =
  label_name :: string
  label_map :: "(string, int) pydict"
  huggingface_model_name :: string
  slack_url :: "string option"

text \<open>The Slack payload: the attachment's colour and headline and its four fields. The
  duration is the number the source renders as \<^verbatim>\<open>f"{duration} minutes"\<close>.\<close>

record slack_message =
  color :: string
  pretext :: string
  component_name :: string
  execution_date :: string
  execution_time :: string
  duration :: rat

record artifact =
  uri :: string
  path :: string

record metrics_information =
  mi_huggingface_model_name :: string
  mi_precision :: rat
  mi_recall :: rat
  mi_f1 :: rat
  precision_per_label :: "rat list"
  recall_per_label :: "rat list"
  f1_per_label :: "rat list"

record classification_metrics =
  matrix :: "nat list list"
  labels :: "string list"

text \<open>The calls to the experiment tracker (\<^verbatim>\<open>aiplatform\<close>), in the order they were made.\<close>

datatype experiment_call =
    Init string
  | StartRun
  | LogClassificationMetrics "string list" "nat list list" string
  | LogMetrics metrics_information
  | EndRun

text \<open>
  Everything the component can change: the notifications it tried to post (URL and
  payload, delivered or not), what it printed, the input model handle, the output handles
  and sinks, and the metrics file it wrote.
\<close>

record world =
  posts :: "(string \<times> slack_message) list"
  stdout :: "string list"
  model :: artifact
  reusable_model :: artifact
  metric :: "(string \<times> rat) list"
  tracker :: "experiment_call list"
  metrics_artifact :: "metrics_information option"

text \<open>
  What the surroundings answer in one execution: the outcome of each HTTP post (by the
  number of posts tried before it), of each tracker call, of loading the model, of
  predicting (the arg-max class index per sample) and of reading the true labels from the
  dataset, of writing the metrics file; and the clock.

  A post is delivered, or it is answered with an error status, or \<^verbatim>\<open>requests.post\<close>
  itself raises: a \<^verbatim>\<open>RequestException\<close> for a failed connection or a timeout, and
  possibly an exception of another class.
\<close>

datatype post_outcome = Delivered | ErrorStatus string | Raised py_exception

record env =
  requests_post :: "nat \<Rightarrow> post_outcome"
  aiplatform_init :: "py_exception option"
  aiplatform_start_run :: "py_exception option"
  load_model :: "py_exception option"
  model_predict :: "py_exception + int list"
  dataset_labels :: "py_exception + int list"
  aiplatform_log_classification_metrics :: "py_exception option"
  aiplatform_log_metrics :: "py_exception option"
  write_metrics_file :: "py_exception option"
  aiplatform_end_run :: "py_exception option"
  start_date :: string
  start_time :: string
  minutes_since_start :: rat

text \<open>\<^verbatim>\<open>send_slack_message\<close>, lines 49 to 100. Lines 58 to 94 build the payload.\<close>

definition slack_payload :: "string \<Rightarrow> string \<Rightarrow> string \<Rightarrow> rat \<Rightarrow> bool \<Rightarrow> slack_message" where
  "slack_payload message_str date time minutes is_success =
     \<lparr>color = (if is_success then ''#36a64f'' else ''FF0000''),
      pretext = (if is_success then '':large_green_circle: '' @ message_str
                 else '':large_red_circle: '' @ message_str),
      component_name = ''Get Data KubeFlow Component'',
      execution_date = date,
      execution_time = time,
      duration = minutes\<rparr>"

text \<open>\<^verbatim>\<open>requests.post(...)\<close> followed by \<^verbatim>\<open>response.raise_for_status()\<close>: an error
  status raises an \<^verbatim>\<open>HTTPError\<close>, which is a \<^verbatim>\<open>RequestException\<close>; what the post
  itself raises is raised as it is.\<close>

definition post_and_raise_for_status :: "env \<Rightarrow> nat \<Rightarrow> py_exception option" where
  "post_and_raise_for_status e n =
     (case requests_post e n of
        Delivered \<Rightarrow> None
      | ErrorStatus m \<Rightarrow> Some (RequestException m)
      | Raised ex \<Rightarrow> Some ex)"

text \<open>Lines 96 to 100: only a \<^verbatim>\<open>RequestException\<close> is caught (and printed); any other
  exception of the post leaves the function.\<close>

definition send_slack_message ::
  "env \<Rightarrow> world \<Rightarrow> string \<Rightarrow> string \<Rightarrow> string \<Rightarrow> string \<Rightarrow> rat \<Rightarrow> bool
   \<Rightarrow> world \<times> (py_exception + unit)" where
  "send_slack_message e w webhook_url message_str date time minutes is_success =
     (let message = slack_payload message_str date time minutes is_success;
          w' = w\<lparr>posts := posts w @ [(webhook_url, message)]\<rparr>
      in case post_and_raise_for_status e (length (posts w)) of
           None \<Rightarrow> (w', Inr ())
         | Some ex \<Rightarrow>
             (case ex of
                RequestException m \<Rightarrow> (w'\<lparr>stdout := stdout w' @ [m]\<rparr>, Inr ())
              | _ \<Rightarrow> (w', Inl ex)))"

text \<open>\<^verbatim>\<open>if slack_url:\<close> holds for a URL that is neither \<^verbatim>\<open>None\<close> nor empty.\<close>

definition truthy :: "string option \<Rightarrow> bool" where
  "truthy s = (case s of None \<Rightarrow> False | Some u \<Rightarrow> u \<noteq> [])"

definition started_message :: "component_args \<Rightarrow> string" where
  "started_message a =
     ''KubeFlow Component: Test HuggingFace Model | Model: '' @ huggingface_model_name a @ '' started''"

definition tested_message :: "component_args \<Rightarrow> string" where
  "tested_message a =
     ''KubeFlow Component: Test HuggingFace Model | Model: '' @ huggingface_model_name a
       @ '' Successfully Tested''"

definition failed_message :: "component_args \<Rightarrow> string" where
  "failed_message a =
     ''KubeFlow Component: Test HuggingFace Model | Model: '' @ huggingface_model_name a
       @ '' Failed to Test''"

text \<open>
  Lines 163 to 177 and 185 to 192: the labels are decoded with the inverse label map, the
  confusion matrix is built over \<^verbatim>\<open>list(idx_2_label_map.values())\<close>, and the scores are
  computed on the class indices, with no \<^verbatim>\<open>labels\<close> argument.
\<close>

definition compute_metrics ::
  "component_args \<Rightarrow> int list \<Rightarrow> int list
   \<Rightarrow> py_exception + (classification_metrics \<times> metrics_information)" where
  "compute_metrics a y_true y_pred =
     (let i2l = idx_2_label_map (label_map a);
          y_true_decoded = map (dict_get i2l) y_true;
          y_pred_decoded = map (dict_get i2l) y_pred
      in case confusion_matrix y_true_decoded y_pred_decoded (dict_values i2l) of
           Inl e \<Rightarrow> Inl e
         | Inr m \<Rightarrow>
      (case precision_score_weighted y_true y_pred of Inl e \<Rightarrow> Inl e | Inr precision \<Rightarrow>
      (case recall_score_weighted y_true y_pred of Inl e \<Rightarrow> Inl e | Inr recall \<Rightarrow>
      (case f1_score_weighted y_true y_pred of Inl e \<Rightarrow> Inl e | Inr f1 \<Rightarrow>
      (case precision_score_none y_true y_pred of Inl e \<Rightarrow> Inl e | Inr p_per_label \<Rightarrow>
      (case recall_score_none y_true y_pred of Inl e \<Rightarrow> Inl e | Inr r_per_label \<Rightarrow>
      (case f1_score_none y_true y_pred of Inl e \<Rightarrow> Inl e | Inr f_per_label \<Rightarrow>
         Inr (\<lparr>matrix = m, labels = dict_values i2l\<rparr>,
              \<lparr>mi_huggingface_model_name = huggingface_model_name a,
               mi_precision = precision, mi_recall = recall, mi_f1 = f1,
               precision_per_label = p_per_label,
               recall_per_label = r_per_label,
               f1_per_label = f_per_label\<rparr>))))))))"

text \<open>
  The body of the \<^verbatim>\<open>try\<close> block, lines 135 to 217. An exception leaves the block at
  the statement that raised it, with the effects made so far.
\<close>

definition test_body ::
  "env \<Rightarrow> component_args \<Rightarrow> world \<Rightarrow> world \<times> (py_exception + rat \<times> rat \<times> rat)" where
  "test_body e a w =
     (case (if truthy (slack_url a)
            then send_slack_message e w (the (slack_url a)) (started_message a)
                   (start_date e) (start_time e) 0 True
            else (w, Inr ())) of
        (w1, Inl ex) \<Rightarrow> (w1, Inl ex)
      | (w1, Inr _) \<Rightarrow>
     (case load_model e of Some ex \<Rightarrow> (w1, Inl ex) | None \<Rightarrow>
     (case model_predict e of Inl ex \<Rightarrow> (w1, Inl ex) | Inr y_pred \<Rightarrow>
     (case dataset_labels e of Inl ex \<Rightarrow> (w1, Inl ex) | Inr y_true \<Rightarrow>
     (case compute_metrics a y_true y_pred of Inl ex \<Rightarrow> (w1, Inl ex) | Inr (cm, mi) \<Rightarrow>
        let w2 = w1\<lparr>reusable_model := (reusable_model w1)\<lparr>uri := uri (model w1)\<rparr>\<rparr>;
            w3 = w2\<lparr>metric := metric w2 @ [(''precision'', mi_precision mi),
                                             (''recall'', mi_recall mi),
                                             (''f1'', mi_f1 mi)]\<rparr>
        in
     (case aiplatform_log_classification_metrics e of Some ex \<Rightarrow> (w3, Inl ex) | None \<Rightarrow>
        let w4 = w3\<lparr>tracker := tracker w3 @
                      [LogClassificationMetrics (labels cm) (matrix cm)
                         (huggingface_model_name a @ ''-confusion-matrix'')]\<rparr>
        in
     (case aiplatform_log_metrics e of Some ex \<Rightarrow> (w4, Inl ex) | None \<Rightarrow>
        let w5 = w4\<lparr>tracker := tracker w4 @ [LogMetrics mi]\<rparr>
        in
     (case write_metrics_file e of Some ex \<Rightarrow> (w5, Inl ex) | None \<Rightarrow>
        let w6 = w5\<lparr>metrics_artifact := Some mi\<rparr>
        in
     (case aiplatform_end_run e of Some ex \<Rightarrow> (w6, Inl ex) | None \<Rightarrow>
        let w7 = w6\<lparr>tracker := tracker w6 @ [EndRun]\<rparr>
        in
     (case (if truthy (slack_url a)
            then send_slack_message e w7 (the (slack_url a)) (tested_message a)
                   (start_date e) (start_time e) (minutes_since_start e) True
            else (w7, Inr ())) of
        (w8, Inl ex) \<Rightarrow> (w8, Inl ex)
      | (w8, Inr _) \<Rightarrow> (w8, Inr (mi_precision mi, mi_recall mi, mi_f1 mi))))))))))))"

text \<open>
  The \<^verbatim>\<open>try\<close> statement, lines 133 to 227: a result of the body is returned; an
  exception is handed to the handler of lines 219 to 227, which posts the failure
  message (with \<^verbatim>\<open>is_success=True\<close>, line 225) and raises the exception again.
\<close>

definition try_test ::
  "env \<Rightarrow> component_args \<Rightarrow> world \<Rightarrow> world \<times> (py_exception + rat \<times> rat \<times> rat)" where
  "try_test e a w =
     (case test_body e a w of
        (w1, Inr outputs) \<Rightarrow> (w1, Inr outputs)
      | (w1, Inl ex) \<Rightarrow>
          (case (if truthy (slack_url a)
                 then send_slack_message e w1 (the (slack_url a)) (failed_message a)
                        (start_date e) (start_time e) (minutes_since_start e) True
                 else (w1, Inr ())) of
             (w2, Inl ex2) \<Rightarrow> (w2, Inl ex2)
           | (w2, Inr _) \<Rightarrow> (w2, Inl ex)))"

text \<open>Lines 115 to 123, before the \<^verbatim>\<open>try\<close> statement: the experiment is named and the
  run is started. An exception here leaves the component at once.\<close>

definition start_experiment :: "env \<Rightarrow> component_args \<Rightarrow> world \<Rightarrow> world \<times> (py_exception + unit)" where
  "start_experiment e a w =
     (let experiment_name =
            build_experiment_name (''exp-'' @ label_name a @ ''-'' @ huggingface_model_name a)
      in case aiplatform_init e of
           Some ex \<Rightarrow> (w, Inl ex)
         | None \<Rightarrow>
             let w0 = w\<lparr>tracker := tracker w @ [Init experiment_name]\<rparr>
             in (case aiplatform_start_run e of
                   Some ex \<Rightarrow> (w0, Inl ex)
                 | None \<Rightarrow> (w0\<lparr>tracker := tracker w0 @ [StartRun]\<rparr>, Inr ())))"

definition test_huggingface_model_component ::
  "env \<Rightarrow> component_args \<Rightarrow> world \<Rightarrow> world \<times> (py_exception + rat \<times> rat \<times> rat)" where
  "test_huggingface_model_component e a w =
     (case start_experiment e a w of
        (w0, Inl ex) \<Rightarrow> (w0, Inl ex)
      | (w0, Inr _) \<Rightarrow> try_test e a w0)"

section \<open>The pipeline's deployment gate\<close>

text \<open>
  \<^verbatim>\<open>training_pipeline\<close> (\<^verbatim>\<open>submit_train_pipeline.py\<close>, lines 38 to 151) declares the
  tasks of the pipeline. A task declared inside \<^verbatim>\<open>with dsl.If(cond)\<close> carries the
  condition, which the platform evaluates on the outputs of the run; the tasks of the
  \<^verbatim>\<open>dsl.ParallelFor\<close> block are declared once per model name. Scores and thresholds are
  floating-point numbers in the source and exact rationals here; only their order is used.
\<close>

datatype yaml = YNull | YBool bool | YInt int | YFloat rat | YStr string

text \<open>\<^verbatim>\<open>deploy_params.get("deploy") == True\<close>: Python's \<^verbatim>\<open>True\<close> equals \<^verbatim>\<open>True\<close>, \<^verbatim>\<open>1\<close>
  and \<^verbatim>\<open>1.0\<close>, and nothing else; a missing key gives \<^verbatim>\<open>None\<close>.\<close>

definition eq_True :: "yaml option \<Rightarrow> bool" where
  "eq_True v =
     (case v of
        Some (YBool b) \<Rightarrow> b
      | Some (YInt i) \<Rightarrow> i = 1
      | Some (YFloat f) \<Rightarrow> f = 1
      | _ \<Rightarrow> False)"

record pipeline_config =
  model_names :: "string list"
  deploy :: "yaml option"
  f1_score_threshold :: rat

datatype task =
    GetData
  | PrepareTrainData string
  | PrepareHoldoutData string
  | TrainModel string
  | TestModel string
  | SelectBestModel
  | DetectBias
  | RegisterModel
  | DeployModel

datatype task_output = BestF1Score

datatype condition = GreaterThan task_output rat

definition training_pipeline :: "pipeline_config \<Rightarrow> (task \<times> condition option) list" where
  "training_pipeline c =
     [(GetData, None)]
     @ concat (map (\<lambda>model_name.
                  [(PrepareTrainData model_name, None),
                   (PrepareHoldoutData model_name, None),
                   (TrainModel model_name, None),
                   (TestModel model_name, None)]) (model_names c))
     @ [(SelectBestModel, None), (DetectBias, None)]
     @ (if eq_True (deploy c)
        then [(RegisterModel, Some (GreaterThan BestF1Score (f1_score_threshold c))),
              (DeployModel, Some (GreaterThan BestF1Score (f1_score_threshold c)))]
        else [])"

text \<open>The platform runs a task when it has no condition or its condition holds of the
  outputs of the run.\<close>

fun holds :: "(task_output \<Rightarrow> rat) \<Rightarrow> condition \<Rightarrow> bool" where
  "holds outputs (GreaterThan out threshold) = (outputs out > threshold)"

definition triggered :: "(task_output \<Rightarrow> rat) \<Rightarrow> (task \<times> condition option) list \<Rightarrow> task list" where
  "triggered outputs pipeline =
     map fst (filter (\<lambda>(t, cond). case cond of None \<Rightarrow> True | Some c \<Rightarrow> holds outputs c) pipeline)"

section \<open>Example executions\<close>

text \<open>
  A label map of three labels and a run on three samples in which only two of the three
  classes occur; \<open>failing_env\<close> is the same run with a prediction step that raises.
\<close>

definition example_args :: component_args where
  "example_args =
     \<lparr>label_name = ''product'',
      label_map = label_2_idx_map [''card'', ''loan'', ''mortgage''],
      huggingface_model_name = ''bert-base'',
      slack_url = Some ''https://hooks.example/T0''\<rparr>"

definition example_world :: world where
  "example_world =
     \<lparr>posts = [], stdout = [],
      model = \<lparr>uri = ''gs://bucket/model'', path = ''/gcs/bucket/model''\<rparr>,
      reusable_model = \<lparr>uri = ''gs://bucket/reusable'', path = ''/gcs/bucket/reusable''\<rparr>,
      metric = [], tracker = [], metrics_artifact = None\<rparr>"

definition example_env :: env where
  "example_env =
     \<lparr>requests_post = (\<lambda>_. Delivered),
      aiplatform_init = None,
      aiplatform_start_run = None,
      load_model = None,
      model_predict = Inr [0, 1, 1],
      dataset_labels = Inr [0, 1, 0],
      aiplatform_log_classification_metrics = None,
      aiplatform_log_metrics = None,
      write_metrics_file = None,
      aiplatform_end_run = None,
      start_date = ''2024-11-01'',
      start_time = ''10:00:00'',
      minutes_since_start = 5 / 2\<rparr>"

definition failing_env :: env where
  "failing_env = example_env\<lparr>model_predict := Inl (RuntimeError ''out of memory'')\<rparr>"

text \<open>The metrics record of the example run.\<close>

definition example_metrics :: metrics_information where
  "example_metrics =
     \<lparr>mi_huggingface_model_name = ''bert-base'',
      mi_precision = 5 / 6, mi_recall = 2 / 3, mi_f1 = 2 / 3,
      precision_per_label = [1, 1 / 2],
      recall_per_label = [1 / 2, 1],
      f1_per_label = [2 / 3, 2 / 3]\<rparr>"

text \<open>
  The same executions with other answers of the notification transport. In the first,
  every post times out. In the second, the first post is delivered and every later post
  is redirected to a location whose host cannot be parsed, for which \<^verbatim>\<open>requests.post\<close>
  raises \<^verbatim>\<open>LocationParseError\<close>.
\<close>

definition timeout_transport :: "nat \<Rightarrow> post_outcome" where
  "timeout_transport n = Raised (RequestException ''Read timed out.'')"

definition second_post_unparsable :: "nat \<Rightarrow> post_outcome" where
  "second_post_unparsable n =
     (if n = 0 then Delivered
      else Raised (LocationParseError ''Failed to parse: label empty or too long''))"

text \<open>
  The label map of the same three labels with the indices 1, 2 and 0: a bijection whose
  insertion order is not the order of its indices. On the same samples class 2 (the
  label \<open>loan\<close>) is the one that does not occur.
\<close>

definition permuted_args :: component_args where
  "permuted_args =
     \<lparr>label_name = ''product'',
      label_map = [(''card'', 1), (''loan'', 2), (''mortgage'', 0)],
      huggingface_model_name = ''bert-base'',
      slack_url = Some ''https://hooks.example/T0''\<rparr>"

definition permuted_matrix :: classification_metrics where
  "permuted_matrix =
     \<lparr>matrix = [[1, 0, 0], [0, 0, 0], [1, 0, 1]],
      labels = [''card'', ''loan'', ''mortgage'']\<rparr>"

definition example_config :: pipeline_config where
  "example_config =
     \<lparr>model_names = [''bert-base''], deploy = Some (YBool True), f1_score_threshold = 3 / 4\<rparr>"

section \<open>Auxiliary notions for the statements and proofs\<close>

text \<open>An outcome of a post that \<open>send_slack_message\<close> absorbs: the post is delivered, or
  what is raised is a \<^verbatim>\<open>RequestException\<close>.\<close>

fun absorbed :: "post_outcome \<Rightarrow> bool" where
  "absorbed Delivered = True"
| "absorbed (ErrorStatus m) = True"
| "absorbed (Raised ex) = is_request_exception ex"

text \<open>The exception with which a post leaves \<open>send_slack_message\<close>, if any.\<close>

fun escapes :: "post_outcome \<Rightarrow> py_exception option" where
  "escapes Delivered = None"
| "escapes (ErrorStatus m) = None"
| "escapes (Raised ex) = (if is_request_exception ex then None else Some ex)"

text \<open>What a notification attempt prints: the message of the caught exception, if any.\<close>

fun printed_of :: "post_outcome \<Rightarrow> string list" where
  "printed_of Delivered = []"
| "printed_of (ErrorStatus m) = [m]"
| "printed_of (Raised (RequestException m)) = [m]"
| "printed_of (Raised other) = []"

definition printed :: "env \<Rightarrow> nat \<Rightarrow> string list" where
  "printed e n = printed_of (requests_post e n)"

text \<open>The world after the guarded notification \<^verbatim>\<open>if slack_url: send_slack_message(...)\<close>,
  and the exception with which the guarded notification leaves, if any.\<close>

definition notified :: "env \<Rightarrow> component_args \<Rightarrow> world \<Rightarrow> string \<Rightarrow> rat \<Rightarrow> world" where
  "notified e a w message_str minutes =
     (if truthy (slack_url a)
      then w\<lparr>posts := posts w @ [(the (slack_url a),
                  slack_payload message_str (start_date e) (start_time e) minutes True)],
             stdout := stdout w @ printed e (length (posts w))\<rparr>
      else w)"

definition notification_escape :: "env \<Rightarrow> component_args \<Rightarrow> world \<Rightarrow> py_exception option" where
  "notification_escape e a w =
     (if truthy (slack_url a) then escapes (requests_post e (length (posts w))) else None)"

text \<open>The three notifications of an execution, as they are posted.\<close>

definition started_post :: "env \<Rightarrow> component_args \<Rightarrow> string \<times> slack_message" where
  "started_post e a =
     (the (slack_url a),
      slack_payload (started_message a) (start_date e) (start_time e) 0 True)"

definition tested_post :: "env \<Rightarrow> component_args \<Rightarrow> string \<times> slack_message" where
  "tested_post e a =
     (the (slack_url a),
      slack_payload (tested_message a) (start_date e) (start_time e) (minutes_since_start e) True)"

definition failed_post :: "env \<Rightarrow> component_args \<Rightarrow> string \<times> slack_message" where
  "failed_post e a =
     (the (slack_url a),
      slack_payload (failed_message a) (start_date e) (start_time e) (minutes_since_start e) True)"

section \<open>Dictionaries and the label maps: facts\<close>

lemma dict_set_fresh:
  "k \<notin> fst ` set d \<Longrightarrow> dict_set d k v = d @ [(k, v)]"
  by (induction d) auto

lemma comprehension_distinct:
  "distinct (map fst d @ map fst kvs) \<Longrightarrow>
   foldl (\<lambda>d (k, v). dict_set d k v) d kvs = d @ kvs"
proof (induction kvs arbitrary: d)
  case Nil
  then show ?case by simp
next
  case (Cons kv kvs)
  obtain k v where kv: "kv = (k, v)" by (cases kv)
  from Cons.prems have fresh: "k \<notin> fst ` set d"
    by (auto simp: kv)
  from Cons.prems have "distinct (map fst (d @ [(k, v)]) @ map fst kvs)"
    by (auto simp: kv)
  then have "foldl (\<lambda>d (k, v). dict_set d k v) (d @ [(k, v)]) kvs = (d @ [(k, v)]) @ kvs"
    by (rule Cons.IH)
  with fresh show ?case
    by (simp add: kv dict_set_fresh)
qed

lemma foldl_swap_comprehension:
  "foldl (\<lambda>d (a, b). dict_set d b a) d kvs =
   foldl (\<lambda>d (k, v). dict_set d k v) d (map (\<lambda>(a, b). (b, a)) kvs)"
  by (induction kvs arbitrary: d) (auto split: prod.splits)

lemma map_swap_zip: "map (\<lambda>(a, b). (b, a)) (zip xs ys) = zip ys xs"
proof (induction xs arbitrary: ys)
  case Nil
  then show ?case by simp
next
  case (Cons x xs)
  then show ?case by (cases ys) auto
qed

lemma label_2_idx_map_distinct:
  assumes "distinct ls"
  shows "label_2_idx_map ls = zip ls (map int [0..<length ls])"
proof -
  have swap: "map (\<lambda>(a, b). (b, a)) (zip (map int [0..<length ls]) ls) =
              zip ls (map int [0..<length ls])"
    by (rule map_swap_zip)
  have "label_2_idx_map ls =
        foldl (\<lambda>d (k, v). dict_set d k v) [] (zip ls (map int [0..<length ls]))"
    unfolding label_2_idx_map_def py_enumerate_def
    by (simp only: foldl_swap_comprehension swap)
  also have "\<dots> = [] @ zip ls (map int [0..<length ls])"
    by (rule comprehension_distinct) (use assms in simp)
  finally show ?thesis by simp
qed

lemma idx_2_label_map_injective:
  assumes "distinct (map snd lm)"
  shows "idx_2_label_map lm = map (\<lambda>(k, v). (v, k)) lm"
proof -
  have "idx_2_label_map lm =
        foldl (\<lambda>d (k, v). dict_set d k v) [] (map (\<lambda>(a, b). (b, a)) lm)"
    unfolding idx_2_label_map_def dict_items_def
    by (simp only: foldl_swap_comprehension)
  also have "\<dots> = [] @ map (\<lambda>(a, b). (b, a)) lm"
    by (rule comprehension_distinct) (use assms in \<open>simp add: comp_def split_def\<close>)
  finally show ?thesis by simp
qed

lemma submit_idx_2_label_map_eq:
  "submit_idx_2_label_map lm = idx_2_label_map lm"
  by (simp add: submit_idx_2_label_map_def idx_2_label_map_def)

lemma idx_2_label_map_of_labels:
  assumes "distinct ls"
  shows "idx_2_label_map (label_2_idx_map ls) = zip (map int [0..<length ls]) ls"
proof -
  have d: "distinct (map snd (zip ls (map int [0..<length ls])))"
    by (simp add: distinct_map inj_on_def)
  have "idx_2_label_map (label_2_idx_map ls) =
        map (\<lambda>(k, v). (v, k)) (zip ls (map int [0..<length ls]))"
    using idx_2_label_map_injective [OF d] label_2_idx_map_distinct [OF assms] by simp
  also have "\<dots> = zip (map int [0..<length ls]) ls"
    by (rule map_swap_zip)
  finally show ?thesis .
qed

lemma nth_indices: "i < n \<Longrightarrow> map int [0..<n] ! i = int i"
  by simp

lemma distinct_indices: "distinct (map int [0..<n])"
  by (simp add: distinct_map inj_on_def)

lemma set_indices: "set (map int [0..<n]) = {j. 0 \<le> j \<and> j < int n}"
proof (rule set_eqI)
  fix j :: int
  show "j \<in> set (map int [0..<n]) \<longleftrightarrow> j \<in> {j. 0 \<le> j \<and> j < int n}"
  proof
    assume "j \<in> set (map int [0..<n])"
    then show "j \<in> {j. 0 \<le> j \<and> j < int n}" by auto
  next
    assume "j \<in> {j. 0 \<le> j \<and> j < int n}"
    then have "nat j < n" and "j = int (nat j)" by auto
    then show "j \<in> set (map int [0..<n])"
      by (metis atLeastLessThan_iff image_eqI list.set_map set_upt zero_le)
  qed
qed

lemma label_2_idx_get:
  assumes "distinct ls" and "i < length ls"
  shows "dict_get (label_2_idx_map ls) (ls ! i) = Some (int i)"
proof -
  have "map_of (zip ls (map int [0..<length ls])) (ls ! i) = Some (map int [0..<length ls] ! i)"
    using assms by (intro map_of_zip_nth) simp_all
  with assms show ?thesis
    by (simp add: dict_get_def label_2_idx_map_distinct)
qed

lemma label_2_idx_get_None:
  assumes "distinct ls" and "l \<notin> set ls"
  shows "dict_get (label_2_idx_map ls) l = None"
proof -
  have "map_of (zip ls (map int [0..<length ls])) l = None"
    using assms(2) by (simp add: map_of_zip_is_None)
  with assms(1) show ?thesis
    by (simp add: dict_get_def label_2_idx_map_distinct)
qed

lemma idx_2_label_get:
  assumes "distinct ls" and "i < length ls"
  shows "dict_get (idx_2_label_map (label_2_idx_map ls)) (int i) = Some (ls ! i)"
proof -
  have "map_of (zip (map int [0..<length ls]) ls) (map int [0..<length ls] ! i) = Some (ls ! i)"
    using assms(2) distinct_indices [of "length ls"] by (intro map_of_zip_nth) simp_all
  with assms show ?thesis
    by (simp add: dict_get_def idx_2_label_map_of_labels)
qed

lemma idx_2_label_get_None:
  assumes "distinct ls" and "\<not> (0 \<le> j \<and> j < int (length ls))"
  shows "dict_get (idx_2_label_map (label_2_idx_map ls)) j = None"
proof -
  have "j \<notin> set (map int [0..<length ls])"
    using assms(2) by (simp only: set_indices) simp
  then have "map_of (zip (map int [0..<length ls]) ls) j = None"
    by (simp add: map_of_zip_is_None)
  with assms(1) show ?thesis
    by (simp add: dict_get_def idx_2_label_map_of_labels)
qed

lemma idx_2_label_get_iff:
  assumes "distinct ls" and "i < length ls"
  shows "(dict_get (idx_2_label_map (label_2_idx_map ls)) t = Some (ls ! i)) = (t = int i)"
proof
  assume g: "dict_get (idx_2_label_map (label_2_idx_map ls)) t = Some (ls ! i)"
  show "t = int i"
  proof (cases "0 \<le> t \<and> t < int (length ls)")
    case True
    then obtain k where k: "k < length ls" and t: "t = int k"
      by (intro that [of "nat t"]) auto
    from assms(1) k have "dict_get (idx_2_label_map (label_2_idx_map ls)) (int k) = Some (ls ! k)"
      by (rule idx_2_label_get)
    with g t have "ls ! k = ls ! i" by simp
    with assms k have "k = i"
      by (simp add: nth_eq_iff_index_eq)
    with t show ?thesis by simp
  next
    case False
    with assms(1) have "dict_get (idx_2_label_map (label_2_idx_map ls)) t = None"
      by (rule idx_2_label_get_None)
    with g show ?thesis by simp
  qed
next
  assume "t = int i"
  with assms show "dict_get (idx_2_label_map (label_2_idx_map ls)) t = Some (ls ! i)"
    by (simp add: idx_2_label_get)
qed

lemma dict_values_idx_2_label:
  "distinct ls \<Longrightarrow> dict_values (idx_2_label_map (label_2_idx_map ls)) = ls"
  by (simp add: dict_values_def idx_2_label_map_of_labels)

lemma dict_len_label_2_idx:
  "distinct ls \<Longrightarrow> dict_len (label_2_idx_map ls) = length ls"
  by (simp add: dict_len_def label_2_idx_map_distinct)

section \<open>The sanitizer: facts\<close>

lemma valid_sub_invalid: "list_all valid_char (sub_invalid s)"
  by (induction s) (simp_all add: sub_invalid_def valid_char_def)

lemma rstrip_hyphen_prefix: "\<exists>zs. s = rstrip_hyphen s @ zs"
proof -
  let ?P = "\<lambda>c. c = CHR ''-''"
  have "rstrip_hyphen s @ rev (takeWhile ?P (rev s)) =
        rev (takeWhile ?P (rev s) @ dropWhile ?P (rev s))"
    by (simp only: rstrip_hyphen_def rev_append)
  also have "\<dots> = s"
    by (simp only: takeWhile_dropWhile_id rev_rev_ident)
  finally have "s = rstrip_hyphen s @ rev (takeWhile ?P (rev s))"
    by (rule sym)
  then show ?thesis ..
qed

lemma rstrip_hyphen_last: "rstrip_hyphen s \<noteq> [] \<Longrightarrow> last (rstrip_hyphen s) \<noteq> CHR ''-''"
proof -
  let ?d = "dropWhile (\<lambda>c. c = CHR ''-'') (rev s)"
  assume "rstrip_hyphen s \<noteq> []"
  then have ne: "?d \<noteq> []"
    by (simp only: rstrip_hyphen_def rev_is_Nil_conv not_False_eq_True)
  then have neq: "\<not> (hd ?d = CHR ''-'')"
    by (rule hd_dropWhile)
  have eq: "last (rev ?d) = hd ?d"
    by (rule last_rev)
  show ?thesis
    unfolding rstrip_hyphen_def eq by (rule neq)
qed

lemma dropWhile_snoc_keep: "\<not> P c \<Longrightarrow> dropWhile P (xs @ [c]) = dropWhile P xs @ [c]"
  by (induction xs) simp_all

lemma rstrip_hyphen_Cons:
  assumes "c \<noteq> CHR ''-''"
  shows "rstrip_hyphen (c # cs) = c # rstrip_hyphen cs"
proof -
  have "dropWhile (\<lambda>c. c = CHR ''-'') (rev cs @ [c]) =
        dropWhile (\<lambda>c. c = CHR ''-'') (rev cs) @ [c]"
    using assms by (intro dropWhile_snoc_keep)
  then show ?thesis
    by (simp add: rstrip_hyphen_def)
qed

lemma lower_or_digit_not_hyphen: "lower_or_digit c \<Longrightarrow> c \<noteq> CHR ''-''"
  unfolding lower_or_digit_def less_eq_char_def by auto

text \<open>The steps after the lower-casing give a well-formed name whatever string they start
  from, so the result does not depend on how \<^verbatim>\<open>str.lower\<close> treats a character.\<close>

lemma sanitized_wellformed:
  assumes res: "r = rstrip_hyphen (take 128
                  (if \<not> match_start (sub_invalid lowered) then CHR ''a'' # sub_invalid lowered
                   else sub_invalid lowered))"
  shows "r \<noteq> [] \<and> length r \<le> 128 \<and> list_all valid_char r \<and>
         lower_or_digit (hd r) \<and> last r \<noteq> CHR ''-''"
proof -
  define n1 where "n1 = sub_invalid lowered"
  define n2 where "n2 = (if \<not> match_start n1 then CHR ''a'' # n1 else n1)"
  define n3 where "n3 = take 128 n2"
  have r: "r = rstrip_hyphen n3"
    by (simp add: res n1_def n2_def n3_def)
  have v1: "list_all valid_char n1"
    unfolding n1_def by (rule valid_sub_invalid)
  have v2: "list_all valid_char n2"
    using v1 by (simp add: n2_def valid_char_def lower_or_digit_def less_eq_char_def)
  have h2: "n2 \<noteq> [] \<and> lower_or_digit (hd n2)"
    by (cases n1) (auto simp: n2_def match_start_def lower_or_digit_def less_eq_char_def)
  have v3: "list_all valid_char n3"
    using v2 by (auto simp: n3_def list_all_iff dest: in_set_takeD)
  have h3: "n3 \<noteq> [] \<and> lower_or_digit (hd n3)"
    using h2 by (cases n2) (auto simp: n3_def)
  have l3: "length n3 \<le> 128"
    by (simp add: n3_def)
  obtain zs where zs: "n3 = rstrip_hyphen n3 @ zs"
    using rstrip_hyphen_prefix by blast
  have keep: "rstrip_hyphen n3 \<noteq> [] \<and> hd (rstrip_hyphen n3) = hd n3"
  proof (cases n3)
    case Nil
    with h3 show ?thesis by simp
  next
    case (Cons c cs)
    with h3 have "c \<noteq> CHR ''-''"
      by (simp add: lower_or_digit_not_hyphen)
    then show ?thesis
      by (simp add: Cons rstrip_hyphen_Cons)
  qed
  have len: "length (rstrip_hyphen n3) \<le> 128"
  proof -
    have "length n3 = length (rstrip_hyphen n3) + length zs"
      by (subst zs) simp
    with l3 show ?thesis by simp
  qed
  have val: "list_all valid_char (rstrip_hyphen n3)"
  proof -
    have "list_all valid_char (rstrip_hyphen n3 @ zs)"
      using v3 zs by simp
    then show ?thesis by simp
  qed
  from keep h3 len val rstrip_hyphen_last [of n3] show ?thesis
    by (simp add: r)
qed

section \<open>The metrics: facts\<close>

lemma cell_decoded:
  assumes "distinct ls" and "i < length ls" and "j < length ls"
  shows "cell (map (dict_get (idx_2_label_map (label_2_idx_map ls))) y_true)
              (map (dict_get (idx_2_label_map (label_2_idx_map ls))) y_pred) (ls ! i) (ls ! j) =
         length (filter (\<lambda>(t, p). t = int i \<and> p = int j) (zip y_true y_pred))"
proof -
  let ?g = "dict_get (idx_2_label_map (label_2_idx_map ls))"
  have "cell (map ?g y_true) (map ?g y_pred) (ls ! i) (ls ! j) =
        length (filter (\<lambda>(t, p). ?g t = Some (ls ! i) \<and> ?g p = Some (ls ! j)) (zip y_true y_pred))"
    by (simp add: cell_def zip_map_map filter_map comp_def split_def)
  also have "\<dots> = length (filter (\<lambda>(t, p). t = int i \<and> p = int j) (zip y_true y_pred))"
    using assms by (simp add: idx_2_label_get_iff)
  finally show ?thesis .
qed

lemma confusion_matrix_cells:
  assumes "confusion_matrix y_true y_pred ls = Inr m"
  shows "m = map (\<lambda>r. map (\<lambda>c. cell y_true y_pred r c) ls) ls"
proof (cases "y_true = []")
  case True
  have "replicate (length ls) (replicate (length ls) (0::nat)) =
        map (\<lambda>r. map (\<lambda>c. 0) ls) ls"
    by (simp add: map_replicate_const)
  with assms True show ?thesis
    by (simp add: confusion_matrix_def cell_def split: option.splits if_splits)
next
  case False
  with assms show ?thesis
    by (simp add: confusion_matrix_def split: option.splits if_splits)
qed

lemma compute_metrics_matrix:
  assumes "compute_metrics a y_true y_pred = Inr (cm, mi)"
  shows "labels cm = dict_values (idx_2_label_map (label_map a)) \<and>
         confusion_matrix (map (dict_get (idx_2_label_map (label_map a))) y_true)
           (map (dict_get (idx_2_label_map (label_map a))) y_pred)
           (dict_values (idx_2_label_map (label_map a))) = Inr (matrix cm)"
  using assms
  by (auto simp: compute_metrics_def Let_def split: sum.splits)

lemma confusion_matrix_square:
  assumes "distinct (map snd (label_map a))"
    and "compute_metrics a y_true y_pred = Inr (cm, mi)"
  shows "labels cm = map fst (label_map a) \<and>
         length (matrix cm) = dict_len (label_map a) \<and>
         list_all (\<lambda>row. length row = dict_len (label_map a)) (matrix cm)"
proof -
  have vals: "dict_values (idx_2_label_map (label_map a)) = map fst (label_map a)"
    using assms(1) by (simp add: idx_2_label_map_injective dict_values_def comp_def split_def)
  from compute_metrics_matrix [OF assms(2)]
  have lab: "labels cm = map fst (label_map a)"
    and cmx: "confusion_matrix
                (map (dict_get (idx_2_label_map (label_map a))) y_true)
                (map (dict_get (idx_2_label_map (label_map a))) y_pred)
                (map fst (label_map a)) = Inr (matrix cm)"
    unfolding vals by simp_all
  from cmx have "matrix cm =
      map (\<lambda>r. map (\<lambda>c. cell (map (dict_get (idx_2_label_map (label_map a))) y_true)
                             (map (dict_get (idx_2_label_map (label_map a))) y_pred) r c)
                   (map fst (label_map a)))
          (map fst (label_map a))"
    by (rule confusion_matrix_cells)
  then have "length (matrix cm) = dict_len (label_map a)"
    and "list_all (\<lambda>row. length row = dict_len (label_map a)) (matrix cm)"
    by (simp_all add: dict_len_def list_all_iff)
  with lab show ?thesis by simp
qed

lemma length_unique_labels:
  "length (unique_labels y_true y_pred) = card (set y_true \<union> set y_pred)"
  by (simp add: unique_labels_def length_remdups_card_conv)

lemma per_label_lengths:
  assumes "compute_metrics a y_true y_pred = Inr (cm, mi)"
  shows "length (precision_per_label mi) = card (set y_true \<union> set y_pred) \<and>
         length (recall_per_label mi) = card (set y_true \<union> set y_pred) \<and>
         length (f1_per_label mi) = card (set y_true \<union> set y_pred)"
  using assms
  by (auto simp: compute_metrics_def Let_def precision_score_none_def recall_score_none_def
        f1_score_none_def length_unique_labels
      split: sum.splits option.splits)

lemma decoded_in_range:
  assumes "distinct ls"
    and "list_all (\<lambda>t. 0 \<le> t \<and> t < int (length ls)) y"
  shows "None \<notin> set (map (dict_get (idx_2_label_map (label_2_idx_map ls))) y)"
proof
  assume "None \<in> set (map (dict_get (idx_2_label_map (label_2_idx_map ls))) y)"
  then obtain t where t: "t \<in> set y"
    and n: "dict_get (idx_2_label_map (label_2_idx_map ls)) t = None"
    by (auto simp: image_iff)
  from assms(2) t have "0 \<le> t \<and> t < int (length ls)"
    by (simp add: list_all_iff)
  then obtain k where k: "k < length ls" and tk: "t = int k"
    by (intro that [of "nat t"]) auto
  from assms(1) k have "dict_get (idx_2_label_map (label_2_idx_map ls)) (int k) = Some (ls ! k)"
    by (rule idx_2_label_get)
  with n tk show False by simp
qed

lemma type_of_target_Classes:
  assumes "None \<notin> set y"
  shows "type_of_target y = Inr Classes"
proof (cases y)
  case Nil
  then show ?thesis by (simp add: type_of_target_def)
next
  case (Cons first rest)
  from assms have f: "first \<noteq> None"
    unfolding Cons by (metis list.set_intros(1))
  from assms have r: "None \<notin> set rest"
    unfolding Cons by simp
  from f obtain v where v: "first = Some v"
    by (cases first) auto
  show ?thesis
    unfolding Cons type_of_target_def v using r by simp
qed

lemma compute_metrics_returns:
  assumes d: "distinct ls"
    and ne: "ls \<noteq> []"
    and lm: "label_map a = label_2_idx_map ls"
    and len: "length y_true = length y_pred"
    and rt: "list_all (\<lambda>t. 0 \<le> t \<and> t < int (length ls)) y_true"
    and rp: "list_all (\<lambda>t. 0 \<le> t \<and> t < int (length ls)) y_pred"
  shows "\<exists>cm mi. compute_metrics a y_true y_pred = Inr (cm, mi)"
proof -
  let ?g = "dict_get (idx_2_label_map (label_2_idx_map ls))"
  have vals: "dict_values (idx_2_label_map (label_2_idx_map ls)) = ls"
    using d by (rule dict_values_idx_2_label)
  have tt: "type_of_target (map ?g y_true) = Inr Classes"
    using decoded_in_range [OF d rt] by (rule type_of_target_Classes)
  have tp: "type_of_target (map ?g y_pred) = Inr Classes"
    using decoded_in_range [OF d rp] by (rule type_of_target_Classes)
  have chk: "check_targets (map ?g y_true) (map ?g y_pred) = None"
    using len by (simp add: check_targets_def check_consistent_length_def tt tp)
  have seen: "list_ex (\<lambda>l. Some l \<in> set (map ?g y_true)) ls" if "y_true \<noteq> []"
  proof -
    from that obtain t ts where y: "y_true = t # ts"
      by (cases y_true) auto
    with rt have "0 \<le> t \<and> t < int (length ls)" by simp
    then obtain k where k: "k < length ls" and tk: "t = int k"
      by (intro that [of "nat t"]) auto
    from d k have "?g (int k) = Some (ls ! k)"
      by (rule idx_2_label_get)
    with y tk have "Some (ls ! k) \<in> set (map ?g y_true)"
      by simp
    with k show ?thesis
      by (auto simp: list_ex_iff)
  qed
  have "\<exists>m. confusion_matrix (map ?g y_true) (map ?g y_pred) ls = Inr m"
    using chk ne seen by (simp add: confusion_matrix_def)
  then obtain m where m: "confusion_matrix (map ?g y_true) (map ?g y_pred) ls = Inr m" ..
  have c: "check_consistent_length y_true y_pred = None"
    using len by (simp add: check_consistent_length_def)
  show ?thesis
    by (simp add: compute_metrics_def Let_def lm vals m c precision_score_weighted_def
          recall_score_weighted_def f1_score_weighted_def precision_score_none_def
          recall_score_none_def f1_score_none_def)
qed

lemma dict_values_idx_2_label_general:
  "distinct (map snd lm) \<Longrightarrow> dict_values (idx_2_label_map lm) = map fst lm"
  by (simp add: idx_2_label_map_injective dict_values_def comp_def split_def)

lemma idx_2_label_general_iff:
  assumes dk: "distinct (map fst lm)" and dv: "distinct (map snd lm)" and i: "i < length lm"
  shows "(dict_get (idx_2_label_map lm) t = Some (fst (lm ! i))) = (t = snd (lm ! i))"
proof -
  let ?sw = "map (\<lambda>(k, v). (v, k)) lm"
  have d: "distinct (map fst ?sw)"
    using dv by (simp add: comp_def split_def)
  have "(map_of ?sw t = Some (fst (lm ! i))) = ((t, fst (lm ! i)) \<in> set ?sw)"
    using d by (rule map_of_eq_Some_iff)
  also have "\<dots> = ((fst (lm ! i), t) \<in> set lm)"
    by auto
  also have "\<dots> = (map_of lm (fst (lm ! i)) = Some t)"
    using dk by (simp add: map_of_eq_Some_iff)
  also have "\<dots> = (t = snd (lm ! i))"
  proof -
    have "(fst (lm ! i), snd (lm ! i)) \<in> set lm"
      using i by simp
    then have "map_of lm (fst (lm ! i)) = Some (snd (lm ! i))"
      using dk by (simp add: map_of_eq_Some_iff)
    then show ?thesis by auto
  qed
  finally show ?thesis
    using dv by (simp add: dict_get_def idx_2_label_map_injective)
qed

lemma idx_2_label_general_defined:
  assumes "distinct (map snd lm)" and "t \<in> snd ` set lm"
  shows "dict_get (idx_2_label_map lm) t \<noteq> None"
proof -
  have "t \<in> fst ` set (map (\<lambda>(k, v). (v, k)) lm)"
    using assms(2) by (force simp: image_iff)
  then have "map_of (map (\<lambda>(k, v). (v, k)) lm) t \<noteq> None"
    by (simp only: map_of_eq_None_iff not_not)
  with assms(1) show ?thesis
    by (simp add: dict_get_def idx_2_label_map_injective)
qed

lemma decoded_defined:
  assumes "distinct (map snd lm)" and "set y \<subseteq> snd ` set lm"
  shows "None \<notin> set (map (dict_get (idx_2_label_map lm)) y)"
proof
  assume "None \<in> set (map (dict_get (idx_2_label_map lm)) y)"
  then obtain t where t: "t \<in> set y" and n: "dict_get (idx_2_label_map lm) t = None"
    by (auto simp: image_iff)
  from assms(2) t have "t \<in> snd ` set lm" by auto
  with assms(1) have "dict_get (idx_2_label_map lm) t \<noteq> None"
    by (rule idx_2_label_general_defined)
  with n show False by simp
qed

lemma cell_decoded_general:
  assumes "distinct (map fst lm)" and "distinct (map snd lm)"
    and "i < length lm" and "j < length lm"
  shows "cell (map (dict_get (idx_2_label_map lm)) y_true)
              (map (dict_get (idx_2_label_map lm)) y_pred) (fst (lm ! i)) (fst (lm ! j)) =
         length (filter (\<lambda>(t, p). t = snd (lm ! i) \<and> p = snd (lm ! j)) (zip y_true y_pred))"
proof -
  let ?g = "dict_get (idx_2_label_map lm)"
  have "cell (map ?g y_true) (map ?g y_pred) (fst (lm ! i)) (fst (lm ! j)) =
        length (filter (\<lambda>(t, p). ?g t = Some (fst (lm ! i)) \<and> ?g p = Some (fst (lm ! j)))
                  (zip y_true y_pred))"
    by (simp add: cell_def zip_map_map filter_map comp_def split_def)
  also have "\<dots> = length (filter (\<lambda>(t, p). t = snd (lm ! i) \<and> p = snd (lm ! j)) (zip y_true y_pred))"
    using assms by (simp add: idx_2_label_general_iff)
  finally show ?thesis .
qed

lemma compute_metrics_returns_general:
  assumes dv: "distinct (map snd (label_map a))"
    and ne: "label_map a \<noteq> []"
    and len: "length y_true = length y_pred"
    and rt: "set y_true \<subseteq> snd ` set (label_map a)"
    and rp: "set y_pred \<subseteq> snd ` set (label_map a)"
  shows "\<exists>cm mi. compute_metrics a y_true y_pred = Inr (cm, mi)"
proof -
  let ?lm = "label_map a"
  let ?g = "dict_get (idx_2_label_map ?lm)"
  have vals: "dict_values (idx_2_label_map ?lm) = map fst ?lm"
    using dv by (rule dict_values_idx_2_label_general)
  have tt: "type_of_target (map ?g y_true) = Inr Classes"
    using decoded_defined [OF dv rt] by (rule type_of_target_Classes)
  have tp: "type_of_target (map ?g y_pred) = Inr Classes"
    using decoded_defined [OF dv rp] by (rule type_of_target_Classes)
  have chk: "check_targets (map ?g y_true) (map ?g y_pred) = None"
    using len by (simp add: check_targets_def check_consistent_length_def tt tp)
  have seen: "list_ex (\<lambda>l. Some l \<in> set (map ?g y_true)) (map fst ?lm)" if "y_true \<noteq> []"
  proof -
    from that obtain t ts where y: "y_true = t # ts"
      by (cases y_true) auto
    with rt have "t \<in> snd ` set ?lm" by simp
    then obtain l where l: "(l, t) \<in> set ?lm"
      by auto
    then have "(t, l) \<in> set (map (\<lambda>(k, v). (v, k)) ?lm)"
      by force
    moreover have "distinct (map fst (map (\<lambda>(k, v). (v, k)) ?lm))"
      using dv by (simp add: comp_def split_def)
    ultimately have "map_of (map (\<lambda>(k, v). (v, k)) ?lm) t = Some l"
      by (simp add: map_of_eq_Some_iff)
    then have "?g t = Some l"
      using dv by (simp add: dict_get_def idx_2_label_map_injective)
    with y have "Some l \<in> set (map ?g y_true)"
      by simp
    moreover from l have "l \<in> set (map fst ?lm)"
      by force
    ultimately show ?thesis
      by (auto simp: list_ex_iff)
  qed
  have "\<exists>m. confusion_matrix (map ?g y_true) (map ?g y_pred) (map fst ?lm) = Inr m"
    using chk ne seen by (simp add: confusion_matrix_def)
  then obtain m where m: "confusion_matrix (map ?g y_true) (map ?g y_pred) (map fst ?lm) = Inr m" ..
  have c: "check_consistent_length y_true y_pred = None"
    using len by (simp add: check_consistent_length_def)
  show ?thesis
    by (simp add: compute_metrics_def Let_def vals m c precision_score_weighted_def
          recall_score_weighted_def f1_score_weighted_def precision_score_none_def
          recall_score_none_def f1_score_none_def)
qed

lemma confusion_matrix_general:
  assumes dk: "distinct (map fst (label_map a))"
    and dv: "distinct (map snd (label_map a))"
    and res: "compute_metrics a y_true y_pred = Inr (cm, mi)"
  shows "labels cm = map fst (label_map a) \<and>
         length (matrix cm) = dict_len (label_map a) \<and>
         list_all (\<lambda>row. length row = dict_len (label_map a)) (matrix cm) \<and>
         (\<forall>i<dict_len (label_map a). \<forall>j<dict_len (label_map a).
            matrix cm ! i ! j =
              length (filter (\<lambda>(t, p). t = snd (label_map a ! i) \<and> p = snd (label_map a ! j))
                        (zip y_true y_pred))) \<and>
         (\<forall>i<dict_len (label_map a). snd (label_map a ! i) \<notin> set y_true \<longrightarrow>
            list_all (\<lambda>n. n = 0) (matrix cm ! i)) \<and>
         (\<forall>j<dict_len (label_map a). snd (label_map a ! j) \<notin> set y_pred \<longrightarrow>
            list_all (\<lambda>row. row ! j = 0) (matrix cm))"
proof -
  let ?lm = "label_map a"
  let ?g = "dict_get (idx_2_label_map ?lm)"
  let ?ls = "map fst ?lm"
  have vals: "dict_values (idx_2_label_map ?lm) = ?ls"
    using dv by (rule dict_values_idx_2_label_general)
  from compute_metrics_matrix [OF res]
  have lab: "labels cm = ?ls"
    and cmx: "confusion_matrix (map ?g y_true) (map ?g y_pred) ?ls = Inr (matrix cm)"
    unfolding vals by simp_all
  have m: "matrix cm = map (\<lambda>r. map (\<lambda>c. cell (map ?g y_true) (map ?g y_pred) r c) ?ls) ?ls"
    using cmx by (rule confusion_matrix_cells)
  have entry: "matrix cm ! i ! j =
               length (filter (\<lambda>(t, p). t = snd (?lm ! i) \<and> p = snd (?lm ! j)) (zip y_true y_pred))"
    if "i < length ?lm" and "j < length ?lm" for i j
    using that dk dv by (simp add: m cell_decoded_general)
  have sz: "length (matrix cm) = length ?lm"
    by (simp add: m)
  have rows: "list_all (\<lambda>row. length row = length ?lm) (matrix cm)"
    by (simp add: m list_all_iff)
  have row_len: "length (matrix cm ! i) = length ?lm" if "i < length ?lm" for i
    using that by (simp add: m)
  have zero_row: "list_all (\<lambda>n. n = 0) (matrix cm ! i)"
    if i: "i < length ?lm" and absent: "snd (?lm ! i) \<notin> set y_true" for i
  proof -
    have "filter (\<lambda>(t, p). t = snd (?lm ! i) \<and> p = snd (?lm ! j)) (zip y_true y_pred) = []" for j
      using absent by (auto simp: filter_empty_conv dest: set_zip_leftD)
    with i entry show ?thesis
      by (simp add: list_all_length row_len)
  qed
  have zero_col: "list_all (\<lambda>row. row ! j = 0) (matrix cm)"
    if j: "j < length ?lm" and absent: "snd (?lm ! j) \<notin> set y_pred" for j
  proof -
    have "filter (\<lambda>(t, p). t = snd (?lm ! i) \<and> p = snd (?lm ! j)) (zip y_true y_pred) = []" for i
      using absent by (auto simp: filter_empty_conv dest: set_zip_rightD)
    with j entry show ?thesis
      by (simp add: list_all_length sz)
  qed
  from lab sz rows entry zero_row zero_col show ?thesis
    by (simp add: dict_len_def)
qed

text \<open>For the label map built at submission from pairwise distinct labels, the insertion
  order is the order of the indices: row and column \<open>i\<close> belong to class \<open>i\<close>.\<close>

lemma confusion_matrix_index_order:
  assumes "distinct ls"
    and "label_map a = label_2_idx_map ls"
    and "compute_metrics a y_true y_pred = Inr (cm, mi)"
  shows "dict_len (label_map a) = length ls \<and>
         labels cm = ls \<and>
         length (matrix cm) = length ls \<and>
         list_all (\<lambda>row. length row = length ls) (matrix cm) \<and>
         (\<forall>i<length ls. \<forall>j<length ls.
            matrix cm ! i ! j =
              length (filter (\<lambda>(t, p). t = int i \<and> p = int j) (zip y_true y_pred))) \<and>
         (\<forall>i<length ls. int i \<notin> set y_true \<longrightarrow> list_all (\<lambda>n. n = 0) (matrix cm ! i)) \<and>
         (\<forall>j<length ls. int j \<notin> set y_pred \<longrightarrow> list_all (\<lambda>row. row ! j = 0) (matrix cm))"
proof -
  let ?g = "dict_get (idx_2_label_map (label_2_idx_map ls))"
  have vals: "dict_values (idx_2_label_map (label_2_idx_map ls)) = ls"
    using assms(1) by (rule dict_values_idx_2_label)
  from compute_metrics_matrix [OF assms(3)]
  have lab: "labels cm = ls"
    and cmx: "confusion_matrix (map ?g y_true) (map ?g y_pred) ls = Inr (matrix cm)"
    unfolding assms(2) vals by simp_all
  have m: "matrix cm = map (\<lambda>r. map (\<lambda>c. cell (map ?g y_true) (map ?g y_pred) r c) ls) ls"
    using cmx by (rule confusion_matrix_cells)
  have entry: "matrix cm ! i ! j =
               length (filter (\<lambda>(t, p). t = int i \<and> p = int j) (zip y_true y_pred))"
    if "i < length ls" and "j < length ls" for i j
    using that assms(1) by (simp add: m cell_decoded)
  have sz: "length (matrix cm) = length ls"
    by (simp add: m)
  have rows: "list_all (\<lambda>row. length row = length ls) (matrix cm)"
    by (simp add: m list_all_iff)
  have row_len: "length (matrix cm ! i) = length ls" if "i < length ls" for i
    using that by (simp add: m)
  have zero_row: "list_all (\<lambda>n. n = 0) (matrix cm ! i)"
    if i: "i < length ls" and absent: "int i \<notin> set y_true" for i
  proof -
    have "filter (\<lambda>(t, p). t = int i \<and> p = int j) (zip y_true y_pred) = []" for j
      using absent by (auto simp: filter_empty_conv dest: set_zip_leftD)
    with i entry show ?thesis
      by (simp add: list_all_length row_len)
  qed
  have zero_col: "list_all (\<lambda>row. row ! j = 0) (matrix cm)"
    if j: "j < length ls" and absent: "int j \<notin> set y_pred" for j
  proof -
    have "filter (\<lambda>(t, p). t = int i \<and> p = int j) (zip y_true y_pred) = []" for i
      using absent by (auto simp: filter_empty_conv dest: set_zip_rightD)
    with j entry show ?thesis
      by (simp add: list_all_length sz)
  qed
  from assms(1,2) lab sz rows entry zero_row zero_col show ?thesis
    by (simp add: dict_len_label_2_idx)
qed

section \<open>The component: facts\<close>

lemma send_slack_message_eq:
  "send_slack_message e w url msg d t m ok =
     (w\<lparr>posts := posts w @ [(url, slack_payload msg d t m ok)],
        stdout := stdout w @ printed e (length (posts w))\<rparr>,
      case escapes (requests_post e (length (posts w))) of
        None \<Rightarrow> Inr ()
      | Some ex \<Rightarrow> Inl ex)"
proof (cases "requests_post e (length (posts w))")
  case Delivered
  then show ?thesis
    by (simp add: send_slack_message_def post_and_raise_for_status_def printed_def Let_def)
next
  case (ErrorStatus s)
  then show ?thesis
    by (simp add: send_slack_message_def post_and_raise_for_status_def printed_def Let_def)
next
  case (Raised ex)
  then show ?thesis
    by (cases ex)
       (simp_all add: send_slack_message_def post_and_raise_for_status_def printed_def Let_def)
qed

lemma guarded_send_eq:
  "(if truthy (slack_url a)
    then send_slack_message e w (the (slack_url a)) msg (start_date e) (start_time e) m True
    else (w, Inr ())) =
   (notified e a w msg m,
    case notification_escape e a w of None \<Rightarrow> Inr () | Some ex \<Rightarrow> Inl ex)"
  by (simp add: send_slack_message_eq notified_def notification_escape_def)

lemma try_test_eq:
  "try_test e a w =
     (case test_body e a w of
        (w1, Inr outputs) \<Rightarrow> (w1, Inr outputs)
      | (w1, Inl ex) \<Rightarrow>
          (notified e a w1 (failed_message a) (minutes_since_start e),
           Inl (case notification_escape e a w1 of None \<Rightarrow> ex | Some ex2 \<Rightarrow> ex2)))"
  unfolding try_test_def guarded_send_eq
  by (simp split: prod.split sum.split option.split)

lemma escapes_absorbed: "absorbed outcome \<Longrightarrow> escapes outcome = None"
  by (cases outcome) simp_all

lemma absorbed_escapes: "escapes outcome = None \<Longrightarrow> absorbed outcome"
  by (cases outcome) (simp_all split: if_splits)

lemma notification_escape_absorbed:
  "\<forall>n. absorbed (requests_post e n) \<Longrightarrow> notification_escape e a w = None"
  by (simp add: notification_escape_def escapes_absorbed)

lemma posts_notified:
  "posts (notified e a w msg m) =
   posts w @ (if truthy (slack_url a)
              then [(the (slack_url a), slack_payload msg (start_date e) (start_time e) m True)]
              else [])"
  by (simp add: notified_def)

lemma notified_frame:
  "model (notified e a w msg m) = model w \<and>
   reusable_model (notified e a w msg m) = reusable_model w \<and>
   metric (notified e a w msg m) = metric w \<and>
   tracker (notified e a w msg m) = tracker w \<and>
   metrics_artifact (notified e a w msg m) = metrics_artifact w"
  by (simp add: notified_def)

lemma notified_silent:
  "(notified e a w msg m)\<lparr>stdout := []\<rparr> =
   (if truthy (slack_url a)
    then w\<lparr>posts := posts w @ [(the (slack_url a),
                slack_payload msg (start_date e) (start_time e) m True)], stdout := []\<rparr>
    else w\<lparr>stdout := []\<rparr>)"
  by (simp add: notified_def)

lemma start_experiment_transport:
  "start_experiment (e\<lparr>requests_post := t\<rparr>) a w = start_experiment e a w"
  by (simp add: start_experiment_def Let_def split: option.split)

lemma start_experiment_frame:
  "posts (fst (start_experiment e a w)) = posts w \<and>
   stdout (fst (start_experiment e a w)) = stdout w \<and>
   model (fst (start_experiment e a w)) = model w \<and>
   reusable_model (fst (start_experiment e a w)) = reusable_model w \<and>
   metrics_artifact (fst (start_experiment e a w)) = metrics_artifact w"
  by (simp add: start_experiment_def Let_def split: option.split)

lemma test_body_model:
  "model (fst (test_body e a w)) = model w"
  unfolding test_body_def guarded_send_eq
  by (simp add: notified_frame Let_def split: option.split sum.split prod.split)

lemma test_body_reusable_model:
  "test_body e a w = (w', Inr outputs) \<Longrightarrow> uri (reusable_model w') = uri (model w)"
  unfolding test_body_def guarded_send_eq
  by (auto simp: notified_frame Let_def split: option.splits sum.splits prod.splits)

lemma test_body_posts:
  assumes "truthy (slack_url a)"
  shows "(\<exists>outputs. snd (test_body e a w) = Inr outputs \<and>
            posts (fst (test_body e a w)) = posts w @ [started_post e a, tested_post e a]) \<or>
         (\<exists>ex. snd (test_body e a w) = Inl ex \<and>
            (posts (fst (test_body e a w)) = posts w @ [started_post e a] \<or>
             posts (fst (test_body e a w)) = posts w @ [started_post e a, tested_post e a] \<and>
             escapes (requests_post e (Suc (length (posts w)))) \<noteq> None))"
  unfolding test_body_def guarded_send_eq
  using assms
  by (simp add: posts_notified notified_frame Let_def started_post_def tested_post_def
        notification_escape_def
        split: option.split sum.split prod.split)

lemma test_body_posts_unconfigured:
  assumes "\<not> truthy (slack_url a)"
  shows "posts (fst (test_body e a w)) = posts w"
  unfolding test_body_def guarded_send_eq
  using assms
  by (simp add: posts_notified notified_frame Let_def split: option.split sum.split prod.split)

lemma test_body_transport:
  assumes "\<forall>n. absorbed (t n)" and "\<forall>n. absorbed (requests_post e n)"
  shows "(fst (test_body (e\<lparr>requests_post := t\<rparr>) a w))\<lparr>stdout := []\<rparr> =
         (fst (test_body e a w))\<lparr>stdout := []\<rparr> \<and>
         snd (test_body (e\<lparr>requests_post := t\<rparr>) a w) = snd (test_body e a w)"
proof -
  have t: "notification_escape (e\<lparr>requests_post := t\<rparr>) a v = None" for v
    using assms(1) by (intro notification_escape_absorbed) simp
  have e: "notification_escape e a v = None" for v
    using assms(2) by (rule notification_escape_absorbed)
  show ?thesis
    unfolding test_body_def guarded_send_eq
    by (simp add: t e notified_def Let_def split: option.split sum.split prod.split)
qed

lemma silent_posts: "w\<lparr>stdout := []\<rparr> = w'\<lparr>stdout := []\<rparr> \<Longrightarrow> posts w = posts w'"
proof -
  assume "w\<lparr>stdout := []\<rparr> = w'\<lparr>stdout := []\<rparr>"
  then have "posts (w\<lparr>stdout := []\<rparr>) = posts (w'\<lparr>stdout := []\<rparr>)"
    by (rule arg_cong)
  then show ?thesis by simp
qed

lemma silent_metrics_artifact:
  "w\<lparr>stdout := []\<rparr> = w'\<lparr>stdout := []\<rparr> \<Longrightarrow> metrics_artifact w = metrics_artifact w'"
proof -
  assume "w\<lparr>stdout := []\<rparr> = w'\<lparr>stdout := []\<rparr>"
  then have "metrics_artifact (w\<lparr>stdout := []\<rparr>) = metrics_artifact (w'\<lparr>stdout := []\<rparr>)"
    by (rule arg_cong)
  then show ?thesis by simp
qed

lemma notified_transport:
  assumes "w\<lparr>stdout := []\<rparr> = w'\<lparr>stdout := []\<rparr>"
  shows "(notified (e\<lparr>requests_post := t\<rparr>) a w msg m)\<lparr>stdout := []\<rparr> =
         (notified e a w' msg m)\<lparr>stdout := []\<rparr>"
proof -
  have p: "posts w = posts w'"
    using assms by (rule silent_posts)
  have "\<And>ps. w\<lparr>posts := ps, stdout := []\<rparr> = w'\<lparr>posts := ps, stdout := []\<rparr>"
    using assms by (cases w, cases w') simp
  then show ?thesis
    using assms by (simp add: notified_silent p)
qed

lemma try_test_transport:
  assumes "\<forall>n. absorbed (t n)" and "\<forall>n. absorbed (requests_post e n)"
  shows "(fst (try_test (e\<lparr>requests_post := t\<rparr>) a w))\<lparr>stdout := []\<rparr> =
         (fst (try_test e a w))\<lparr>stdout := []\<rparr> \<and>
         snd (try_test (e\<lparr>requests_post := t\<rparr>) a w) = snd (try_test e a w)"
proof -
  obtain w1 r where b: "test_body e a w = (w1, r)"
    by (cases "test_body e a w")
  obtain w1' r' where b': "test_body (e\<lparr>requests_post := t\<rparr>) a w = (w1', r')"
    by (cases "test_body (e\<lparr>requests_post := t\<rparr>) a w")
  from test_body_transport [OF assms, where a = a and w = w] b b'
  have same: "w1'\<lparr>stdout := []\<rparr> = w1\<lparr>stdout := []\<rparr>" and r: "r' = r"
    by simp_all
  have t: "notification_escape (e\<lparr>requests_post := t\<rparr>) a v = None" for v
    using assms(1) by (intro notification_escape_absorbed) simp
  have e: "notification_escape e a v = None" for v
    using assms(2) by (rule notification_escape_absorbed)
  show ?thesis
  proof (cases r)
    case (Inl ex)
    with same r b b'
      notified_transport [OF same, where e = e and t = t and a = a
        and msg = "failed_message a" and m = "minutes_since_start e"]
    show ?thesis by (simp add: try_test_eq t e)
  next
    case (Inr outputs)
    with same r b b' show ?thesis by (simp add: try_test_eq)
  qed
qed

lemma component_transport:
  assumes "\<forall>n. absorbed (t n)" and "\<forall>n. absorbed (requests_post e n)"
  shows "(fst (test_huggingface_model_component (e\<lparr>requests_post := t\<rparr>) a w))\<lparr>stdout := []\<rparr> =
         (fst (test_huggingface_model_component e a w))\<lparr>stdout := []\<rparr> \<and>
         snd (test_huggingface_model_component (e\<lparr>requests_post := t\<rparr>) a w) =
         snd (test_huggingface_model_component e a w)"
proof -
  obtain w0 r where s: "start_experiment e a w = (w0, r)"
    by (cases "start_experiment e a w")
  show ?thesis
  proof (cases r)
    case (Inl ex)
    with s show ?thesis
      by (simp add: test_huggingface_model_component_def start_experiment_transport)
  next
    case (Inr u)
    with s try_test_transport [OF assms, where a = a and w = w0] show ?thesis
      by (simp add: test_huggingface_model_component_def start_experiment_transport)
  qed
qed

lemma failure_notification_color:
  assumes "truthy (slack_url a)"
    and "start_experiment e a w = (w0, Inr ())"
    and "test_body e a w0 = (w1, Inl ex)"
  shows "color (snd (last (posts (fst (test_huggingface_model_component e a w))))) = ''#36a64f''"
proof -
  have "fst (test_huggingface_model_component e a w) =
        notified e a w1 (failed_message a) (minutes_since_start e)"
    using assms(2,3) by (simp add: test_huggingface_model_component_def try_test_eq)
  with assms(1) show ?thesis
    by (simp add: posts_notified slack_payload_def)
qed

section \<open>Claims\<close>

subsection \<open>C1\<close>

text \<open>
  C1. With the deploy flag enabled, the registration and deployment tasks run exactly
  when the best F1 score is strictly greater than the configured threshold; a score equal
  to the threshold does not trigger them.
\<close>

theorem deployment_gate:
  assumes "eq_True (deploy c)"
  shows "(RegisterModel \<in> set (triggered outputs (training_pipeline c))) =
           (outputs BestF1Score > f1_score_threshold c) \<and>
         (DeployModel \<in> set (triggered outputs (training_pipeline c))) =
           (outputs BestF1Score > f1_score_threshold c) \<and>
         (outputs BestF1Score = f1_score_threshold c \<longrightarrow>
            RegisterModel \<notin> set (triggered outputs (training_pipeline c)) \<and>
            DeployModel \<notin> set (triggered outputs (training_pipeline c)))"
  using assms by (auto simp: training_pipeline_def triggered_def)

theorem deployment_gate_witness:
  "eq_True (deploy example_config) \<and>
   RegisterModel \<notin> set (triggered (\<lambda>_. 3 / 4) (training_pipeline example_config)) \<and>
   DeployModel \<notin> set (triggered (\<lambda>_. 3 / 4) (training_pipeline example_config)) \<and>
   RegisterModel \<in> set (triggered (\<lambda>_. 7501 / 10000) (training_pipeline example_config)) \<and>
   DeployModel \<in> set (triggered (\<lambda>_. 7501 / 10000) (training_pipeline example_config))"
proof -
  have d: "eq_True (deploy example_config)"
    by (simp add: example_config_def eq_True_def)
  have t: "f1_score_threshold example_config = 3 / 4"
    by (simp add: example_config_def)
  from deployment_gate [OF d, of "\<lambda>_. 3 / 4"] deployment_gate [OF d, of "\<lambda>_. 7501 / 10000"] d
  show ?thesis
    by (simp add: t)
qed

subsection \<open>C2\<close>

text \<open>
  C2 at the failing input: the label map has three labels, the classes 0 and 1 occur in
  the test set, class 2 does not, and the three per-label arrays written to the metrics
  record have length two.
\<close>

theorem per_label_arrays_shorter_than_label_map:
  "dict_len (label_map example_args) = 3 \<and>
   map_option
     (\<lambda>mi. (length (precision_per_label mi), length (recall_per_label mi),
            length (f1_per_label mi)))
     (metrics_artifact
        (fst (test_huggingface_model_component example_env example_args example_world))) =
     Some (2, 2, 2)"
  by code_simp

subsection \<open>C3\<close>

text \<open>
  C3, as stated, fails: the component takes the rows and columns in the insertion order
  of the label map, not in the order of the indices. With the bijective label map
  \<open>card \<mapsto> 1, loan \<mapsto> 2, mortgage \<mapsto> 0\<close> and a test set in which class 2 occurs neither
  among the true nor among the predicted labels, the third row and column belong to
  \<open>mortgage\<close>, which is class 0, and are not zero.
\<close>

theorem index_order_counterexample:
  "distinct (map fst (label_map permuted_args)) \<and>
   distinct (map snd (label_map permuted_args)) \<and>
   dict_len (label_map permuted_args) = 3 \<and>
   compute_metrics permuted_args [0, 1, 0] [0, 1, 1] = Inr (permuted_matrix, example_metrics) \<and>
   2 \<notin> set [0, 1, 0 :: int] \<and>
   2 \<notin> set [0, 1, 1 :: int] \<and>
   matrix permuted_matrix ! 2 = [1, 0, 1] \<and>
   map (\<lambda>row. row ! 2) (matrix permuted_matrix) = [0, 0, 1] \<and>
   labels permuted_matrix ! 2 = ''mortgage'' \<and>
   dict_get (label_map permuted_args) ''mortgage'' = Some 0"
  by code_simp

text \<open>
  C3, amended. For every label map of size K that is a bijection between K labels and K
  class indices, the confusion matrix the component builds is K by K, with its rows and
  columns in the insertion order of the label map (the order of the indices when the map
  lists its labels by index, as the map built at submission does): entry \<open>(i, j)\<close> counts
  the samples whose true class is the index of the \<open>i\<close>-th label and whose predicted class
  is the index of the \<open>j\<close>-th label. A label whose index never occurs among the true labels
  has an all-zero row, and one whose index is never predicted has an all-zero column. The
  matrix is built whenever the map is not empty and the true and predicted labels are
  equally many indices of the map.
\<close>

theorem confusion_matrix_shape:
  assumes "distinct (map fst (label_map a))"
    and "distinct (map snd (label_map a))"
  shows "(label_map a \<noteq> [] \<and> length y_true = length y_pred \<and>
          set y_true \<subseteq> snd ` set (label_map a) \<and> set y_pred \<subseteq> snd ` set (label_map a) \<longrightarrow>
            (\<exists>cm mi. compute_metrics a y_true y_pred = Inr (cm, mi))) \<and>
         (\<forall>cm mi. compute_metrics a y_true y_pred = Inr (cm, mi) \<longrightarrow>
            labels cm = map fst (label_map a) \<and>
            length (matrix cm) = dict_len (label_map a) \<and>
            list_all (\<lambda>row. length row = dict_len (label_map a)) (matrix cm) \<and>
            (\<forall>i<dict_len (label_map a). \<forall>j<dict_len (label_map a).
               matrix cm ! i ! j =
                 length (filter (\<lambda>(t, p). t = snd (label_map a ! i) \<and> p = snd (label_map a ! j))
                           (zip y_true y_pred))) \<and>
            (\<forall>i<dict_len (label_map a). snd (label_map a ! i) \<notin> set y_true \<longrightarrow>
               list_all (\<lambda>n. n = 0) (matrix cm ! i)) \<and>
            (\<forall>j<dict_len (label_map a). snd (label_map a ! j) \<notin> set y_pred \<longrightarrow>
               list_all (\<lambda>row. row ! j = 0) (matrix cm)))"
proof (rule conjI)
  show "label_map a \<noteq> [] \<and> length y_true = length y_pred \<and>
        set y_true \<subseteq> snd ` set (label_map a) \<and> set y_pred \<subseteq> snd ` set (label_map a) \<longrightarrow>
          (\<exists>cm mi. compute_metrics a y_true y_pred = Inr (cm, mi))"
    using assms(2) by (intro impI compute_metrics_returns_general) simp_all
next
  show "\<forall>cm mi. compute_metrics a y_true y_pred = Inr (cm, mi) \<longrightarrow>
            labels cm = map fst (label_map a) \<and>
            length (matrix cm) = dict_len (label_map a) \<and>
            list_all (\<lambda>row. length row = dict_len (label_map a)) (matrix cm) \<and>
            (\<forall>i<dict_len (label_map a). \<forall>j<dict_len (label_map a).
               matrix cm ! i ! j =
                 length (filter (\<lambda>(t, p). t = snd (label_map a ! i) \<and> p = snd (label_map a ! j))
                           (zip y_true y_pred))) \<and>
            (\<forall>i<dict_len (label_map a). snd (label_map a ! i) \<notin> set y_true \<longrightarrow>
               list_all (\<lambda>n. n = 0) (matrix cm ! i)) \<and>
            (\<forall>j<dict_len (label_map a). snd (label_map a ! j) \<notin> set y_pred \<longrightarrow>
               list_all (\<lambda>row. row ! j = 0) (matrix cm))"
    by (intro allI impI, rule confusion_matrix_general [OF assms])
qed

theorem confusion_matrix_shape_witness:
  "distinct (map fst (label_map permuted_args)) \<and>
   distinct (map snd (label_map permuted_args)) \<and>
   (\<exists>cm mi. compute_metrics permuted_args [0, 1, 0] [0, 1, 1] = Inr (cm, mi)) \<and>
   compute_metrics permuted_args [0, 1, 0] [0, 1, 1] = Inr (permuted_matrix, example_metrics) \<and>
   labels permuted_matrix = [''card'', ''loan'', ''mortgage''] \<and>
   length (matrix permuted_matrix) = 3 \<and>
   snd (label_map permuted_args ! 1) = 2 \<and>
   list_all (\<lambda>n. n = 0) (matrix permuted_matrix ! 1) \<and>
   list_all (\<lambda>row. row ! 1 = 0) (matrix permuted_matrix)"
proof -
  have dk: "distinct (map fst (label_map permuted_args))"
    by code_simp
  have dv: "distinct (map snd (label_map permuted_args))"
    by code_simp
  have c: "compute_metrics permuted_args [0, 1, 0] [0, 1, 1] = Inr (permuted_matrix, example_metrics)"
    by code_simp
  have wf: "label_map permuted_args \<noteq> [] \<and> length [0, 1, 0 :: int] = length [0, 1, 1 :: int] \<and>
            set [0, 1, 0] \<subseteq> snd ` set (label_map permuted_args) \<and>
            set [0, 1, 1] \<subseteq> snd ` set (label_map permuted_args)"
    by (simp add: permuted_args_def)
  have k: "dict_len (label_map permuted_args) = 3"
    by code_simp
  have l: "map fst (label_map permuted_args) = [''card'', ''loan'', ''mortgage'']"
    by code_simp
  have one: "snd (label_map permuted_args ! 1) = 2"
    by code_simp
  have absent: "(2::int) \<notin> set [0, 1, 0]" "(2::int) \<notin> set [0, 1, 1]"
    by simp_all
  note shape = confusion_matrix_shape [OF dk dv, of "[0, 1, 0]" "[0, 1, 1]"]
  from shape wf have returns: "\<exists>cm mi. compute_metrics permuted_args [0, 1, 0] [0, 1, 1] = Inr (cm, mi)"
    by blast
  from shape c have props:
    "labels permuted_matrix = map fst (label_map permuted_args)"
    "length (matrix permuted_matrix) = dict_len (label_map permuted_args)"
    "\<forall>i<dict_len (label_map permuted_args). snd (label_map permuted_args ! i) \<notin> set [0, 1, 0] \<longrightarrow>
        list_all (\<lambda>n. n = 0) (matrix permuted_matrix ! i)"
    "\<forall>j<dict_len (label_map permuted_args). snd (label_map permuted_args ! j) \<notin> set [0, 1, 1] \<longrightarrow>
        list_all (\<lambda>row. row ! j = 0) (matrix permuted_matrix)"
    by blast+
  from props(3) k one absent(1) have row: "list_all (\<lambda>n. n = 0) (matrix permuted_matrix ! 1)"
    by auto
  from props(4) k one absent(2) have col: "list_all (\<lambda>row. row ! 1 = 0) (matrix permuted_matrix)"
    by auto
  from dk dv returns c props(1,2) k l one row col show ?thesis
    by simp
qed

subsection \<open>C4\<close>

text \<open>
  C4, as stated, fails. The two executions differ only in the outcomes of the posts after
  the first: in one they are delivered, in the other \<^verbatim>\<open>requests.post\<close> raises an
  exception that is not a \<^verbatim>\<open>RequestException\<close>. That exception leaves
  \<open>send_slack_message\<close>, and the execution that returns its scores when the posts are
  delivered ends with the exception instead.
\<close>

theorem transport_failure_counterexample:
  "snd (test_huggingface_model_component example_env example_args example_world) =
     Inr (5 / 6, 2 / 3, 2 / 3) \<and>
   snd (test_huggingface_model_component
          (example_env\<lparr>requests_post := second_post_unparsable\<rparr>) example_args example_world) =
     Inl (LocationParseError ''Failed to parse: label empty or too long'') \<and>
   snd (send_slack_message (example_env\<lparr>requests_post := second_post_unparsable\<rparr>)
          (example_world\<lparr>posts := [started_post example_env example_args]\<rparr>)
          ''https://hooks.example/T0'' (tested_message example_args)
          ''2024-11-01'' ''10:00:00'' (5 / 2) True) =
     Inl (LocationParseError ''Failed to parse: label empty or too long'')"
  by code_simp

text \<open>
  C4, amended. Two executions of the component that differ only in the outcomes of the
  notification transport, where every post is delivered or fails with a
  \<^verbatim>\<open>RequestException\<close> (a failed connection, a timeout, an error status), return the same
  result (the same triple of precision, recall and F1, or the same exception), write the
  same metrics record and leave every part of the world but the printed output the same;
  and such a failure never leaves \<open>send_slack_message\<close>.
\<close>

theorem notification_non_interference:
  assumes "\<forall>n. absorbed (t1 n)" and "\<forall>n. absorbed (t2 n)"
  shows "snd (test_huggingface_model_component (e\<lparr>requests_post := t1\<rparr>) a w) =
         snd (test_huggingface_model_component (e\<lparr>requests_post := t2\<rparr>) a w) \<and>
         metrics_artifact (fst (test_huggingface_model_component (e\<lparr>requests_post := t1\<rparr>) a w)) =
         metrics_artifact (fst (test_huggingface_model_component (e\<lparr>requests_post := t2\<rparr>) a w)) \<and>
         (fst (test_huggingface_model_component (e\<lparr>requests_post := t1\<rparr>) a w))\<lparr>stdout := []\<rparr> =
         (fst (test_huggingface_model_component (e\<lparr>requests_post := t2\<rparr>) a w))\<lparr>stdout := []\<rparr> \<and>
         snd (send_slack_message (e\<lparr>requests_post := t1\<rparr>) w url msg d tm m ok) = Inr ()"
proof -
  let ?run = "\<lambda>t. test_huggingface_model_component (e\<lparr>requests_post := t\<rparr>) a w"
  have base: "\<forall>n. absorbed (requests_post (e\<lparr>requests_post := t2\<rparr>) n)"
    using assms(2) by simp
  from component_transport [OF assms(1) base, where a = a and w = w]
  have silent: "(fst (?run t1))\<lparr>stdout := []\<rparr> = (fst (?run t2))\<lparr>stdout := []\<rparr>"
    and result: "snd (?run t1) = snd (?run t2)"
    by simp_all
  have written: "metrics_artifact (fst (?run t1)) = metrics_artifact (fst (?run t2))"
    using silent by (rule silent_metrics_artifact)
  have "escapes (t1 (length (posts w))) = None"
    using assms(1) by (simp add: escapes_absorbed)
  then have helper: "snd (send_slack_message (e\<lparr>requests_post := t1\<rparr>) w url msg d tm m ok) = Inr ()"
    by (simp add: send_slack_message_eq)
  from silent result written helper show ?thesis
    by simp
qed

theorem notification_non_interference_witness:
  "absorbed Delivered \<and>
   absorbed (Raised (RequestException ''Read timed out.'')) \<and>
   snd (test_huggingface_model_component
          (example_env\<lparr>requests_post := timeout_transport\<rparr>) example_args example_world) =
     Inr (5 / 6, 2 / 3, 2 / 3) \<and>
   metrics_artifact (fst (test_huggingface_model_component
          (example_env\<lparr>requests_post := timeout_transport\<rparr>) example_args example_world)) =
     Some example_metrics \<and>
   stdout (fst (test_huggingface_model_component
          (example_env\<lparr>requests_post := timeout_transport\<rparr>) example_args example_world)) =
     [''Read timed out.'', ''Read timed out.'']"
proof -
  have t1: "\<forall>n. absorbed (timeout_transport n)"
    by (simp add: timeout_transport_def)
  have t2: "\<forall>n. absorbed ((\<lambda>_. Delivered) n)"
    by simp
  have e: "example_env\<lparr>requests_post := \<lambda>_. Delivered\<rparr> = example_env"
    by (simp add: example_env_def)
  have r: "snd (test_huggingface_model_component example_env example_args example_world) =
           Inr (5 / 6, 2 / 3, 2 / 3)"
    by code_simp
  have m: "metrics_artifact (fst (test_huggingface_model_component example_env example_args
             example_world)) = Some example_metrics"
    by code_simp
  have p: "stdout (fst (test_huggingface_model_component
             (example_env\<lparr>requests_post := timeout_transport\<rparr>) example_args example_world)) =
           [''Read timed out.'', ''Read timed out.'']"
    by code_simp
  from notification_non_interference [OF t1 t2, of example_env example_args example_world]
  show ?thesis
    by (simp add: e r m p)
qed

subsection \<open>C5\<close>

text \<open>
  C5, as stated, fails: the prediction step raises \<^verbatim>\<open>RuntimeError\<close>, the handler's own
  notification raises an exception that is not a \<^verbatim>\<open>RequestException\<close>, and the component
  ends with the notification's exception, not with the one the body raised.
\<close>

theorem reraise_counterexample:
  "snd (start_experiment (failing_env\<lparr>requests_post := second_post_unparsable\<rparr>)
          example_args example_world) = Inr () \<and>
   snd (test_body (failing_env\<lparr>requests_post := second_post_unparsable\<rparr>) example_args
          (fst (start_experiment (failing_env\<lparr>requests_post := second_post_unparsable\<rparr>)
                  example_args example_world))) =
     Inl (RuntimeError ''out of memory'') \<and>
   snd (test_huggingface_model_component
          (failing_env\<lparr>requests_post := second_post_unparsable\<rparr>) example_args example_world) =
     Inl (LocationParseError ''Failed to parse: label empty or too long'')"
  by code_simp

text \<open>
  C5, amended. An exception raised in the body of the \<^verbatim>\<open>try\<close> block is handed to the
  handler once: when a notification endpoint is configured the handler attempts one
  notification with the failure message and changes nothing else but the printed output.
  The component then ends with the same exception, unless the post of that notification
  raises an exception that is not a \<^verbatim>\<open>RequestException\<close>, which then leaves the component
  in its place. In either case the component ends with an exception, never with a result.
\<close>

theorem exception_reraised:
  assumes "start_experiment e a w = (w0, Inr ())"
    and "test_body e a w0 = (w1, Inl ex)"
  shows "snd (test_huggingface_model_component e a w) =
           Inl (if truthy (slack_url a)
                then (case escapes (requests_post e (length (posts w1))) of
                        None \<Rightarrow> ex
                      | Some ex2 \<Rightarrow> ex2)
                else ex) \<and>
         (\<not> truthy (slack_url a) \<or> absorbed (requests_post e (length (posts w1))) \<longrightarrow>
            snd (test_huggingface_model_component e a w) = Inl ex) \<and>
         posts (fst (test_huggingface_model_component e a w)) =
           posts w1 @ (if truthy (slack_url a) then [failed_post e a] else []) \<and>
         (fst (test_huggingface_model_component e a w))\<lparr>posts := posts w1, stdout := stdout w1\<rparr> = w1"
proof -
  have run: "test_huggingface_model_component e a w =
             (notified e a w1 (failed_message a) (minutes_since_start e),
              Inl (case notification_escape e a w1 of None \<Rightarrow> ex | Some ex2 \<Rightarrow> ex2))"
    using assms by (simp add: test_huggingface_model_component_def try_test_eq)
  have rest: "(notified e a w1 (failed_message a) (minutes_since_start e))
                \<lparr>posts := posts w1, stdout := stdout w1\<rparr> = w1"
    by (simp add: notified_def)
  from run rest show ?thesis
    by (auto simp: posts_notified notification_escape_def failed_post_def escapes_absorbed)
qed

theorem exception_reraised_witness:
  "start_experiment failing_env example_args example_world =
     (fst (start_experiment failing_env example_args example_world), Inr ()) \<and>
   snd (test_body failing_env example_args
          (fst (start_experiment failing_env example_args example_world))) =
     Inl (RuntimeError ''out of memory'') \<and>
   snd (test_huggingface_model_component failing_env example_args example_world) =
     Inl (RuntimeError ''out of memory'') \<and>
   length (posts (fst (test_huggingface_model_component failing_env example_args example_world))) = 2"
proof -
  let ?w0 = "fst (start_experiment failing_env example_args example_world)"
  let ?w1 = "fst (test_body failing_env example_args ?w0)"
  have s: "snd (start_experiment failing_env example_args example_world) = Inr ()"
    by code_simp
  have h1: "start_experiment failing_env example_args example_world = (?w0, Inr ())"
    using s by (simp add: prod_eq_iff)
  have b: "snd (test_body failing_env example_args ?w0) = Inl (RuntimeError ''out of memory'')"
    by code_simp
  have h2: "test_body failing_env example_args ?w0 = (?w1, Inl (RuntimeError ''out of memory''))"
    using b by (simp add: prod_eq_iff)
  have n: "length (posts ?w1) = 1"
    by code_simp
  have t: "truthy (slack_url example_args)"
    by code_simp
  have d: "requests_post failing_env (length (posts ?w1)) = Delivered"
    by code_simp
  from exception_reraised [OF h1 h2] h1 b n t d show ?thesis
    by simp
qed

subsection \<open>C6\<close>

text \<open>
  C6, as stated, fails: with a notification endpoint configured, the successful example
  execution attempts two notifications, not one.
\<close>

theorem one_notification_counterexample:
  "truthy (slack_url example_args) \<and>
   snd (test_huggingface_model_component example_env example_args example_world) =
     Inr (5 / 6, 2 / 3, 2 / 3) \<and>
   posts example_world = [] \<and>
   length (posts (fst (test_huggingface_model_component example_env example_args example_world))) = 2"
  by code_simp

text \<open>
  C6, amended. When a notification endpoint is configured, every execution that has
  started its experiment run attempts the start notification first. An execution that
  returns attempts exactly one more notification, the success message. An execution that
  raises attempts exactly one notification with the failure message, as its last one;
  between the two it has attempted the success message only when it was the post of that
  message that raised.
\<close>

theorem notification_attempts:
  assumes "truthy (slack_url a)"
    and "start_experiment e a w = (w0, Inr ())"
  shows "(\<exists>outputs. snd (test_huggingface_model_component e a w) = Inr outputs \<and>
            posts (fst (test_huggingface_model_component e a w)) =
              posts w @ [started_post e a, tested_post e a]) \<or>
         (\<exists>ex. snd (test_huggingface_model_component e a w) = Inl ex \<and>
            (posts (fst (test_huggingface_model_component e a w)) =
               posts w @ [started_post e a, failed_post e a] \<or>
             posts (fst (test_huggingface_model_component e a w)) =
               posts w @ [started_post e a, tested_post e a, failed_post e a] \<and>
             escapes (requests_post e (Suc (length (posts w)))) \<noteq> None))"
proof -
  obtain w1 r where b: "test_body e a w0 = (w1, r)"
    by (cases "test_body e a w0")
  have p0: "posts w0 = posts w"
    using start_experiment_frame [of e a w] assms(2) by simp
  have run: "test_huggingface_model_component e a w = try_test e a w0"
    using assms(2) by (simp add: test_huggingface_model_component_def)
  show ?thesis
  proof (cases r)
    case (Inr outputs)
    with test_body_posts [OF assms(1), of e w0] b p0 show ?thesis
      by (simp add: run try_test_eq)
  next
    case (Inl ex)
    with test_body_posts [OF assms(1), of e w0] b p0
    have "posts w1 = posts w @ [started_post e a] \<or>
          posts w1 = posts w @ [started_post e a, tested_post e a] \<and>
          escapes (requests_post e (Suc (length (posts w)))) \<noteq> None"
      by simp
    with Inl b assms(1) show ?thesis
      by (auto simp: run try_test_eq posts_notified failed_post_def)
  qed
qed

theorem notification_attempts_witness:
  "truthy (slack_url example_args) \<and>
   start_experiment failing_env example_args example_world =
     (fst (start_experiment failing_env example_args example_world), Inr ()) \<and>
   map (\<lambda>(u, m). pretext m)
     (posts (fst (test_huggingface_model_component failing_env example_args example_world))) =
     ['':large_green_circle: KubeFlow Component: Test HuggingFace Model | Model: bert-base started'',
      '':large_green_circle: KubeFlow Component: Test HuggingFace Model | Model: bert-base Failed to Test''] \<and>
   map (\<lambda>(u, m). pretext m)
     (posts (fst (test_huggingface_model_component
                    (example_env\<lparr>requests_post := second_post_unparsable\<rparr>)
                    example_args example_world))) =
     ['':large_green_circle: KubeFlow Component: Test HuggingFace Model | Model: bert-base started'',
      '':large_green_circle: KubeFlow Component: Test HuggingFace Model | Model: bert-base Successfully Tested'',
      '':large_green_circle: KubeFlow Component: Test HuggingFace Model | Model: bert-base Failed to Test'']"
proof -
  let ?w0 = "fst (start_experiment failing_env example_args example_world)"
  let ?run = "test_huggingface_model_component failing_env example_args example_world"
  have t: "truthy (slack_url example_args)"
    by code_simp
  have s: "snd (start_experiment failing_env example_args example_world) = Inr ()"
    by code_simp
  have h: "start_experiment failing_env example_args example_world = (?w0, Inr ())"
    using s by (simp add: prod_eq_iff)
  have r: "snd ?run = Inl (RuntimeError ''out of memory'')"
    by code_simp
  have n: "length (posts (fst ?run)) = 2"
    by code_simp
  have e: "posts example_world = []"
    by code_simp
  from notification_attempts [OF t h] r
  have "posts (fst ?run) = posts example_world @ [started_post failing_env example_args,
                                                 failed_post failing_env example_args] \<or>
        posts (fst ?run) = posts example_world @ [started_post failing_env example_args,
                                                 tested_post failing_env example_args,
                                                 failed_post failing_env example_args]"
    by auto
  with n e have p: "posts (fst ?run) = [started_post failing_env example_args,
                                       failed_post failing_env example_args]"
    by auto
  have first: "pretext (snd (started_post failing_env example_args)) =
      '':large_green_circle: KubeFlow Component: Test HuggingFace Model | Model: bert-base started''"
    by code_simp
  have last: "pretext (snd (failed_post failing_env example_args)) =
      '':large_green_circle: KubeFlow Component: Test HuggingFace Model | Model: bert-base Failed to Test''"
    by code_simp
  have three: "map (\<lambda>(u, m). pretext m)
     (posts (fst (test_huggingface_model_component
                    (example_env\<lparr>requests_post := second_post_unparsable\<rparr>)
                    example_args example_world))) =
     ['':large_green_circle: KubeFlow Component: Test HuggingFace Model | Model: bert-base started'',
      '':large_green_circle: KubeFlow Component: Test HuggingFace Model | Model: bert-base Successfully Tested'',
      '':large_green_circle: KubeFlow Component: Test HuggingFace Model | Model: bert-base Failed to Test'']"
    by code_simp
  from t h three show ?thesis
    by (simp add: p split_def first last)
qed

subsection \<open>C7\<close>

text \<open>
  C7 at the failing input: the prediction step raises, the component ends with that
  exception, and the notification it posts for the failure carries the success colour
  and the green marker.
\<close>

theorem failure_notification_marked_success:
  "snd (test_huggingface_model_component failing_env example_args example_world) =
     Inl (RuntimeError ''out of memory'') \<and>
   map (\<lambda>(u, m). (color m, pretext m))
     (posts (fst (test_huggingface_model_component failing_env example_args example_world))) =
     [(''#36a64f'',
       '':large_green_circle: KubeFlow Component: Test HuggingFace Model | Model: bert-base started''),
      (''#36a64f'',
       '':large_green_circle: KubeFlow Component: Test HuggingFace Model | Model: bert-base Failed to Test'')]"
  by code_simp

subsection \<open>C8\<close>

text \<open>
  C8. When the component returns, the output model handle has the URI of the input model
  handle, and the input model handle is as it was.
\<close>

theorem model_passthrough:
  assumes "test_huggingface_model_component e a w = (w', Inr outputs)"
  shows "uri (reusable_model w') = uri (model w) \<and> model w' = model w"
proof -
  obtain w0 r where s: "start_experiment e a w = (w0, r)"
    by (cases "start_experiment e a w")
  with assms have t: "try_test e a w0 = (w', Inr outputs)"
    by (cases r) (simp_all add: test_huggingface_model_component_def)
  obtain w1 r1 where b: "test_body e a w0 = (w1, r1)"
    by (cases "test_body e a w0")
  with t have b': "test_body e a w0 = (w', Inr outputs)"
    by (cases r1) (simp_all add: try_test_eq)
  have m0: "model w0 = model w"
    using start_experiment_frame [of e a w] s by simp
  have "uri (reusable_model w') = uri (model w0)"
    using b' by (rule test_body_reusable_model)
  moreover have "model w' = model w0"
    using test_body_model [of e a w0] b' by simp
  ultimately show ?thesis
    by (simp add: m0)
qed

theorem model_passthrough_witness:
  "snd (test_huggingface_model_component example_env example_args example_world) =
     Inr (5 / 6, 2 / 3, 2 / 3) \<and>
   uri (reusable_model (fst (test_huggingface_model_component example_env example_args example_world))) =
     ''gs://bucket/model'' \<and>
   model (fst (test_huggingface_model_component example_env example_args example_world)) =
     \<lparr>uri = ''gs://bucket/model'', path = ''/gcs/bucket/model''\<rparr>"
proof -
  let ?run = "test_huggingface_model_component example_env example_args example_world"
  have r: "snd ?run = Inr (5 / 6, 2 / 3, 2 / 3)"
    by code_simp
  then have h: "?run = (fst ?run, Inr (5 / 6, 2 / 3, 2 / 3))"
    by (simp add: prod_eq_iff)
  have m: "model example_world = \<lparr>uri = ''gs://bucket/model'', path = ''/gcs/bucket/model''\<rparr>"
    by (simp add: example_world_def)
  from model_passthrough [OF h] r m show ?thesis
    by simp
qed

subsection \<open>C9\<close>

text \<open>
  C9. For pairwise distinct label values, the label-to-index map built at submission and
  the index-to-label map derived from it (at submission and, by the same comprehension,
  inside the testing component) are inverse to each other: looking a label up and then
  its index gives the label back, exactly for the configured labels, and looking an
  index up and then its label gives the index back, exactly for the indices 0 to K - 1.
\<close>

theorem label_maps_inverse:
  assumes "distinct ls"
  shows "dict_get (idx_2_label_map (label_2_idx_map ls)) \<circ>\<^sub>m dict_get (label_2_idx_map ls) =
           (\<lambda>l. if l \<in> set ls then Some l else None) \<and>
         dict_get (label_2_idx_map ls) \<circ>\<^sub>m dict_get (idx_2_label_map (label_2_idx_map ls)) =
           (\<lambda>i. if 0 \<le> i \<and> i < int (length ls) then Some i else None) \<and>
         submit_idx_2_label_map (label_2_idx_map ls) = idx_2_label_map (label_2_idx_map ls)"
proof -
  have forth: "(dict_get (idx_2_label_map (label_2_idx_map ls)) \<circ>\<^sub>m dict_get (label_2_idx_map ls)) l =
               (if l \<in> set ls then Some l else None)" for l
  proof (cases "l \<in> set ls")
    case True
    then obtain i where i: "i < length ls" and l: "l = ls ! i"
      by (auto simp: in_set_conv_nth)
    with assms show ?thesis
      by (simp add: map_comp_def label_2_idx_get idx_2_label_get)
  next
    case False
    with assms show ?thesis
      by (simp add: map_comp_def label_2_idx_get_None)
  qed
  have backward: "(dict_get (label_2_idx_map ls) \<circ>\<^sub>m dict_get (idx_2_label_map (label_2_idx_map ls))) j =
              (if 0 \<le> j \<and> j < int (length ls) then Some j else None)" for j
  proof (cases "0 \<le> j \<and> j < int (length ls)")
    case True
    then obtain k where k: "k < length ls" and j: "j = int k"
      by (intro that [of "nat j"]) auto
    from assms k show ?thesis
      unfolding j by (simp add: map_comp_def idx_2_label_get label_2_idx_get)
  next
    case False
    with assms show ?thesis
      by (simp add: map_comp_def idx_2_label_get_None)
  qed
  from forth backward show ?thesis
    by (simp add: fun_eq_iff submit_idx_2_label_map_eq)
qed

theorem label_maps_inverse_witness:
  "distinct [''card'', ''loan'', ''mortgage''] \<and>
   (dict_get (idx_2_label_map (label_2_idx_map [''card'', ''loan'', ''mortgage''])) \<circ>\<^sub>m
    dict_get (label_2_idx_map [''card'', ''loan'', ''mortgage''])) ''loan'' = Some ''loan'' \<and>
   (dict_get (label_2_idx_map [''card'', ''loan'', ''mortgage'']) \<circ>\<^sub>m
    dict_get (idx_2_label_map (label_2_idx_map [''card'', ''loan'', ''mortgage'']))) 2 = Some 2"
proof -
  have d: "distinct [''card'', ''loan'', ''mortgage'']"
    by simp
  from label_maps_inverse [OF d] d show ?thesis
    by simp
qed

subsection \<open>C10\<close>

text \<open>
  C10. For every input string, \<open>build_experiment_name\<close> returns a non-empty string of at
  most 128 characters that contains only lowercase letters, digits and hyphens, begins
  with a lowercase letter or digit, and does not end with a hyphen.
\<close>

theorem build_experiment_name_wellformed:
  "build_experiment_name s \<noteq> [] \<and>
   length (build_experiment_name s) \<le> 128 \<and>
   list_all valid_char (build_experiment_name s) \<and>
   lower_or_digit (hd (build_experiment_name s)) \<and>
   last (build_experiment_name s) \<noteq> CHR ''-''"
proof -
  have "build_experiment_name s =
        rstrip_hyphen (take 128
          (if \<not> match_start (sub_invalid (py_lower s)) then CHR ''a'' # sub_invalid (py_lower s)
           else sub_invalid (py_lower s)))"
    by (simp add: build_experiment_name_def Let_def)
  then show ?thesis
    by (rule sanitized_wellformed)
qed

end
